theory Spec2Isabelle
  imports Complex_Main "HOL-Library.Sublist"
begin

section \<open>Numbers and dates\<close>

text \<open>
  Both implementations keep amounts and the exchange rate in IEEE doubles (Go \<open>float64\<close>,
  TypeScript \<open>number\<close>). The model keeps the finite values as exact rationals and the three
  special values apart, so that division by zero is visible: it yields an infinity or NaN,
  never \<open>0\<close>. Rounding to 53 bits and the sign of zero are not modelled.
\<close>

datatype float64 = Finite rat | PosInf | NegInf | NaN

fun fneg :: "float64 \<Rightarrow> float64" where
  "fneg (Finite a) = Finite (- a)"
| "fneg PosInf = NegInf"
| "fneg NegInf = PosInf"
| "fneg NaN = NaN"


fun fdiv :: "float64 \<Rightarrow> float64 \<Rightarrow> float64" where
  "fdiv (Finite a) (Finite b) =
     (if b = 0 then (if a = 0 then NaN else if 0 < a then PosInf else NegInf)
      else Finite (a / b))"
| "fdiv NaN _ = NaN"
| "fdiv _ NaN = NaN"
| "fdiv (Finite a) PosInf = Finite 0"
| "fdiv (Finite a) NegInf = Finite 0"
| "fdiv PosInf (Finite b) = (if 0 \<le> b then PosInf else NegInf)"
| "fdiv NegInf (Finite b) = (if 0 \<le> b then NegInf else PosInf)"
| "fdiv PosInf PosInf = NaN"
| "fdiv PosInf NegInf = NaN"
| "fdiv NegInf PosInf = NaN"
| "fdiv NegInf NegInf = NaN"

text \<open>
  A Go \<open>time.Time\<close>: the calendar date and the nanoseconds since midnight. The zero value
  \<open>time.Time{}\<close> is January 1 of year 1, 00:00:00. Locations are not modelled.
\<close>

record Time =
  t_year :: int
  t_month :: nat
  t_day :: nat
  t_nsec :: int

definition zero_Time :: Time where
  "zero_Time = \<lparr>t_year = 1, t_month = 1, t_day = 1, t_nsec = 0\<rparr>"

definition IsZero :: "Time \<Rightarrow> bool" where
  "IsZero t = (t = zero_Time)"

text \<open>
  A valid JavaScript \<open>Date\<close>, read through the getters the ledger uses (\<open>getMonth\<close> counts
  from 0). An invalid date, whose getters all return NaN, is \<open>None\<close> of \<open>jsDate option\<close>
  where the code can meet one.
\<close>

record jsDate =
  getFullYear :: int
  getMonth :: int
  getDate :: int
  getHours :: int
  getMinutes :: int

section \<open>Go: entries, days and the undo stack\<close>

text \<open>\<open>internal/ledger/entry.go\<close>: the struct \<open>Entry\<close>.\<close>

record Entry =
  E_ID :: string
  E_Date :: Time
  E_Description :: string
  E_CAD :: float64
  E_IDR :: float64
  E_ScreenTime :: string

text \<open>\<open>Entry.Clone\<close> copies every field; on values it is the identity.\<close>

definition Entry_Clone :: "Entry \<Rightarrow> Entry" where
  "Entry_Clone e =
     \<lparr>E_ID = E_ID e, E_Date = E_Date e, E_Description = E_Description e,
      E_CAD = E_CAD e, E_IDR = E_IDR e, E_ScreenTime = E_ScreenTime e\<rparr>"

text \<open>The struct \<open>Day\<close> and its methods.\<close>

record Day =
  D_Date :: Time
  D_Entries :: "Entry list"
  D_ScreenTime :: string
  D_Journal :: string

definition NewDay :: "Time \<Rightarrow> Day" where
  "NewDay date = \<lparr>D_Date = date, D_Entries = [], D_ScreenTime = [], D_Journal = []\<rparr>"

definition Day_AddEntry :: "Day \<Rightarrow> Entry \<Rightarrow> Day" where
  "Day_AddEntry d entry =
     d\<lparr>D_Entries := D_Entries d @ [entry\<lparr>E_ScreenTime := D_ScreenTime d\<rparr>]\<rparr>"

text \<open>
  \<open>Day.RemoveEntry\<close> drops the first entry with the given id and returns it, or returns
  \<open>nil\<close> and leaves the entries alone.
\<close>

fun remove_first :: "string \<Rightarrow> Entry list \<Rightarrow> Entry list" where
  "remove_first i [] = []"
| "remove_first i (e # es) = (if E_ID e = i then es else e # remove_first i es)"

definition Day_RemoveEntry :: "Day \<Rightarrow> string \<Rightarrow> Entry option \<times> Day" where
  "Day_RemoveEntry d i =
     (find (\<lambda>e. E_ID e = i) (D_Entries d), d\<lparr>D_Entries := remove_first i (D_Entries d)\<rparr>)"

fun replace_first :: "Entry \<Rightarrow> Entry list \<Rightarrow> Entry list" where
  "replace_first entry [] = []"
| "replace_first entry (e # es) =
     (if E_ID e = E_ID entry then entry # es else e # replace_first entry es)"

definition Day_UpdateEntry :: "Day \<Rightarrow> Entry \<Rightarrow> bool \<times> Day" where
  "Day_UpdateEntry d entry =
     (\<exists>e \<in> set (D_Entries d). E_ID e = E_ID entry,
      d\<lparr>D_Entries := replace_first entry (D_Entries d)\<rparr>)"

definition Day_SetScreenTime :: "Day \<Rightarrow> string \<Rightarrow> Day" where
  "Day_SetScreenTime d screenTime =
     d\<lparr>D_ScreenTime := screenTime,
       D_Entries := map (\<lambda>e. e\<lparr>E_ScreenTime := screenTime\<rparr>) (D_Entries d)\<rparr>"

definition Day_IsEmpty :: "Day \<Rightarrow> bool" where
  "Day_IsEmpty d = (length (D_Entries d) = 0 \<and> D_Journal d = [])"

text \<open>\<open>internal/ledger/undo.go\<close>: the four action types, the action and the stack.\<close>

datatype ActionType = ActionAddEntry | ActionDeleteEntry | ActionEditEntry | ActionSetScreenTime

record UndoAction =
  A_Type :: ActionType
  A_Date :: Time
  A_Entry :: "Entry option"
  A_OldEntry :: "Entry option"
  A_ScreenTime :: string
  A_OldScreenTime :: string
  A_Description :: string

record UndoStack =
  actions :: "UndoAction list"
  maxSize :: nat

definition NewUndoStack :: UndoStack where
  "NewUndoStack = \<lparr>actions = [], maxSize = 100\<rparr>"

definition UndoStack_Push :: "UndoStack \<Rightarrow> UndoAction \<Rightarrow> UndoStack" where
  "UndoStack_Push us action =
     (let appended = actions us @ [action]
      in us\<lparr>actions := (if length appended > maxSize us then drop 1 appended else appended)\<rparr>)"

definition UndoStack_Pop :: "UndoStack \<Rightarrow> UndoAction option \<times> UndoStack" where
  "UndoStack_Pop us =
     (if length (actions us) = 0 then (None, us)
      else (Some (actions us ! (length (actions us) - 1)),
            us\<lparr>actions := take (length (actions us) - 1) (actions us)\<rparr>))"

definition UndoStack_IsEmpty :: "UndoStack \<Rightarrow> bool" where
  "UndoStack_IsEmpty us = (length (actions us) = 0)"

definition UndoStack_Size :: "UndoStack \<Rightarrow> nat" where
  "UndoStack_Size us = length (actions us)"

text \<open>
  \<open>truncate\<close> (in \<open>undo.go\<close> and in \<open>utils/format.ts\<close>) shortens a string to \<open>maxLen\<close>
  characters, the last three being dots. It is named \<open>truncate_str\<close> here, the name
  \<open>truncate\<close> being taken by the record package.
\<close>

definition truncate_str :: "string \<Rightarrow> nat \<Rightarrow> string" where
  "truncate_str s maxLen = (if length s \<le> maxLen then s else take (maxLen - 3) s @ ''...'')"

definition UndoStack_PushAddEntry :: "UndoStack \<Rightarrow> Time \<Rightarrow> Entry \<Rightarrow> UndoStack" where
  "UndoStack_PushAddEntry us date entry =
     UndoStack_Push us
       \<lparr>A_Type = ActionAddEntry, A_Date = date, A_Entry = Some (Entry_Clone entry),
        A_OldEntry = None, A_ScreenTime = [], A_OldScreenTime = [],
        A_Description = ''Added '' @ [CHR 0x27] @ truncate_str (E_Description entry) 20 @ [CHR 0x27]\<rparr>"


definition UndoStack_PushEditEntry :: "UndoStack \<Rightarrow> Time \<Rightarrow> Entry \<Rightarrow> Entry \<Rightarrow> UndoStack" where
  "UndoStack_PushEditEntry us date oldEntry newEntry =
     UndoStack_Push us
       \<lparr>A_Type = ActionEditEntry, A_Date = date, A_Entry = Some (Entry_Clone newEntry),
        A_OldEntry = Some (Entry_Clone oldEntry), A_ScreenTime = [], A_OldScreenTime = [],
        A_Description = ''Edited '' @ [CHR 0x27] @ truncate_str (E_Description oldEntry) 20 @ [CHR 0x27]\<rparr>"

definition UndoStack_PushSetScreenTime :: "UndoStack \<Rightarrow> Time \<Rightarrow> string \<Rightarrow> string \<Rightarrow> UndoStack" where
  "UndoStack_PushSetScreenTime us date oldScreenTime newScreenTime =
     UndoStack_Push us
       \<lparr>A_Type = ActionSetScreenTime, A_Date = date, A_Entry = None, A_OldEntry = None,
        A_ScreenTime = newScreenTime, A_OldScreenTime = oldScreenTime,
        A_Description = ''Changed screen time to '' @ [CHR 0x27] @ newScreenTime @ [CHR 0x27]\<rparr>"

section \<open>TypeScript: entries, days and the undo stack\<close>

text \<open>\<open>src/types/entry.ts\<close> and \<open>src/types/day.ts\<close>: the interfaces \<open>Entry\<close> and \<open>Day\<close>.\<close>

record tsEntry =
  e_id :: string
  e_date :: jsDate
  e_description :: string
  e_cad :: float64
  e_idr :: float64
  e_screenTime :: string

definition cloneEntry :: "tsEntry \<Rightarrow> tsEntry" where
  "cloneEntry entry = entry\<lparr>e_date := e_date entry\<rparr>"

record tsDay =
  d_date :: jsDate
  d_entries :: "tsEntry list"
  d_screenTime :: string
  d_journal :: string

definition createDay :: "jsDate \<Rightarrow> tsDay" where
  "createDay date = \<lparr>d_date = date, d_entries = [], d_screenTime = [], d_journal = []\<rparr>"

text \<open>\<open>src/services/undoManager.ts\<close>: the enum with five members, the action, the stack.\<close>

datatype tsActionType = AddEntry | DeleteEntry | EditEntry | SetScreenTime | SetJournal

record tsUndoAction =
  a_type :: tsActionType
  a_date :: jsDate
  a_entry :: "tsEntry option"
  a_oldEntry :: "tsEntry option"
  a_screenTime :: "string option"
  a_oldScreenTime :: "string option"
  a_journal :: "string option"
  a_oldJournal :: "string option"
  a_description :: string

definition MAX_STACK_SIZE :: nat where
  "MAX_STACK_SIZE = 100"

text \<open>The class \<open>UndoStack\<close> holds one array; \<open>push\<close> appends and shifts the front out.\<close>

definition UndoStack_push :: "tsUndoAction list \<Rightarrow> tsUndoAction \<Rightarrow> tsUndoAction list" where
  "UndoStack_push acts action =
     (let pushed = acts @ [action]
      in if length pushed > MAX_STACK_SIZE then tl pushed else pushed)"

definition UndoStack_pop :: "tsUndoAction list \<Rightarrow> tsUndoAction option \<times> tsUndoAction list" where
  "UndoStack_pop acts = (if acts = [] then (None, []) else (Some (last acts), butlast acts))"

section \<open>The standard libraries\<close>

text \<open>
  The functions of the Go standard library the ledger calls, taken as parameters: their
  code is not part of the repository. \<open>time_Format layout t\<close> is \<open>t.Format(layout)\<close>,
  \<open>time_Parse layout s\<close> is \<open>time.Parse(layout, s)\<close> (\<open>None\<close> for an error),
  \<open>ParseFloat s\<close> is \<open>strconv.ParseFloat(s, 64)\<close>, \<open>Sprintf_2f\<close> and \<open>Sprintf_0f\<close> are
  \<open>fmt.Sprintf\<close> with the verbs \<open>%.2f\<close> and \<open>%.0f\<close>. \<open>csv_Write\<close> is the text an
  \<open>encoding/csv\<close> writer produces for a list of records, \<open>csv_ReadAll\<close> is
  \<open>csv.NewReader(file).ReadAll()\<close> on a text (\<open>Inl\<close> the error). \<open>json_Unmarshal\<close> and
  \<open>json_MarshalIndent\<close> are \<open>encoding/json\<close> at the type of the rate cache (\<open>None\<close> and
  \<open>Inl\<close> for their errors).
\<close>

record RateCache =
  R_CADToIDR :: float64
  R_LastUpdated :: Time

record golib =
  time_Format :: "string \<Rightarrow> Time \<Rightarrow> string"
  time_Parse :: "string \<Rightarrow> string \<Rightarrow> Time option"
  ParseFloat :: "string \<Rightarrow> float64 option"
  Sprintf_2f :: "float64 \<Rightarrow> string"
  Sprintf_0f :: "float64 \<Rightarrow> string"
  csv_Write :: "string list list \<Rightarrow> string"
  csv_ReadAll :: "string \<Rightarrow> string + string list list"
  json_Unmarshal :: "string \<Rightarrow> RateCache option"
  json_MarshalIndent :: "RateCache \<Rightarrow> string + string"

text \<open>
  The functions of the JavaScript runtime the ledger calls. \<open>toFixed2 x\<close> is
  \<open>x.toFixed(2)\<close>, \<open>roundString x\<close> is \<open>Math.round(x).toString()\<close>, \<open>parseFloat\<close> returns
  NaN where the text is no number, \<open>newDate y m d\<close> is \<open>new Date(y, m, d, 0, 0, 0, 0)\<close>,
  \<open>newDateOfString s\<close> is \<open>new Date(s)\<close> (\<open>None\<close> for an invalid date), \<open>JSON_parse\<close> is
  \<open>JSON.parse\<close> read at the type of the rate cache (\<open>None\<close> where it throws).
\<close>

record tsRateCache =
  cad_to_idr :: float64
  last_updated :: string

record jslib =
  toFixed2 :: "float64 \<Rightarrow> string"
  roundString :: "float64 \<Rightarrow> string"
  parseFloat :: "string \<Rightarrow> float64"
  newDate :: "int \<Rightarrow> int \<Rightarrow> int \<Rightarrow> jsDate"
  newDateOfString :: "string \<Rightarrow> jsDate option"
  JSON_parse :: "string \<Rightarrow> tsRateCache option"
  JSON_stringify :: "tsRateCache \<Rightarrow> string"

text \<open>
  Decimal digits of an integer, as \<open>%d\<close> prints an \<open>int64\<close> and as JavaScript prints an
  integral number below \<open>10^21\<close>.
\<close>

definition digit_char :: "int \<Rightarrow> char" where
  "digit_char d = char_of (48 + d)"

function show_digits :: "int \<Rightarrow> string" where
  "show_digits n =
     (if n < 10 then [digit_char n] else show_digits (n div 10) @ [digit_char (n mod 10)])"
  by pat_completeness auto
termination
  by (relation "measure nat") auto

declare show_digits.simps [simp del]

definition show_nat :: "nat \<Rightarrow> string" where
  "show_nat n = show_digits (int n)"

definition show_int :: "int \<Rightarrow> string" where
  "show_int i = (if i < 0 then CHR ''-'' # show_digits (- i) else show_digits i)"

text \<open>
  Files are texts under path names; the only failure of a read that is modelled is the
  missing file. \<open>filepath.Join\<close> and \<open>path.join\<close> put a slash between the parts.
\<close>

type_synonym files = "string \<rightharpoonup> string"

definition path_join :: "string \<Rightarrow> string \<Rightarrow> string" where
  "path_join dir name = dir @ ''/'' @ name"

section \<open>Go: the currency converter\<close>

text \<open>\<open>internal/currency/converter.go\<close>.\<close>

definition CacheFileName :: string where
  "CacheFileName = ''.rate_cache.json''"

definition DefaultCADToIDR :: float64 where
  "DefaultCADToIDR = Finite 11800"

record Converter =
  C_cache :: RateCache
  C_cacheDir :: string
  C_offline :: bool
  C_lastErr :: "string option"

definition Converter_getCachePath :: "Converter \<Rightarrow> string" where
  "Converter_getCachePath c = path_join (C_cacheDir c) CacheFileName"

definition Converter_loadCache :: "golib \<Rightarrow> files \<Rightarrow> Converter \<Rightarrow> Converter" where
  "Converter_loadCache L fs c =
     (case fs (Converter_getCachePath c) of
        None \<Rightarrow> c\<lparr>C_cache := \<lparr>R_CADToIDR = DefaultCADToIDR, R_LastUpdated = zero_Time\<rparr>\<rparr>
      | Some data \<Rightarrow>
          (case json_Unmarshal L data of
             None \<Rightarrow> c\<lparr>C_cache := \<lparr>R_CADToIDR = DefaultCADToIDR, R_LastUpdated = zero_Time\<rparr>\<rparr>
           | Some cache \<Rightarrow> c\<lparr>C_cache := cache\<rparr>))"

text \<open>
  \<open>NewConverter\<close>: before \<open>loadCache\<close> runs the cache pointer is nil; \<open>loadCache\<close> sets it on
  every path, so the value it starts from is never read.
\<close>

definition NewConverter :: "golib \<Rightarrow> files \<Rightarrow> string \<Rightarrow> Converter" where
  "NewConverter L fs cacheDir =
     Converter_loadCache L fs
       \<lparr>C_cache = \<lparr>R_CADToIDR = Finite 0, R_LastUpdated = zero_Time\<rparr>,
        C_cacheDir = cacheDir, C_offline = False, C_lastErr = None\<rparr>"

text \<open>
  \<open>saveCache\<close> can fail at each of its three steps. What the operating system does is a
  parameter: \<open>fault\<close> names the step of the operating system that fails, with its error, and
  is \<open>None\<close> when none does. The result is the error \<open>saveCache\<close> returns and the files it
  leaves; a write that fails leaves the file as it was.
\<close>

datatype os_fault = MkdirAll_fails string | WriteFile_fails string

definition Converter_saveCache ::
  "golib \<Rightarrow> files \<Rightarrow> Converter \<Rightarrow> os_fault option \<Rightarrow> string option \<times> files" where
  "Converter_saveCache L fs c fault =
     (case fault of
        Some (MkdirAll_fails err) \<Rightarrow> (Some (''failed to create cache directory: '' @ err), fs)
      | _ \<Rightarrow>
          (case json_MarshalIndent L (C_cache c) of
             Inl err \<Rightarrow> (Some (''failed to marshal cache: '' @ err), fs)
           | Inr data \<Rightarrow>
               (case fault of
                  Some (WriteFile_fails err) \<Rightarrow> (Some (''failed to write cache: '' @ err), fs)
                | _ \<Rightarrow> (None, fs(Converter_getCachePath c \<mapsto> data)))))"

text \<open>
  \<open>RefreshRate\<close>: \<open>fetched\<close> is what \<open>client.FetchCADToIDR()\<close> returned (\<open>Inl\<close> the error),
  \<open>now\<close> is \<open>time.Now()\<close>, \<open>fault\<close> is for \<open>saveCache\<close>. The result is the error returned, the
  converter and the files. After a fetch that succeeded the cache, the offline flag and the
  last error are set before \<open>saveCache\<close> runs, and its error is returned as it is.
\<close>

definition Converter_RefreshRate ::
  "golib \<Rightarrow> files \<Rightarrow> Converter \<Rightarrow> string + float64 \<Rightarrow> Time \<Rightarrow> os_fault option
     \<Rightarrow> string option \<times> Converter \<times> files" where
  "Converter_RefreshRate L fs c fetched now fault =
     (case fetched of
        Inl err \<Rightarrow> (Some err, c\<lparr>C_offline := True, C_lastErr := Some err\<rparr>, fs)
      | Inr rate \<Rightarrow>
          (let c' = c\<lparr>C_cache := \<lparr>R_CADToIDR = rate, R_LastUpdated = now\<rparr>,
                      C_offline := False, C_lastErr := None\<rparr>
           in case Converter_saveCache L fs c' fault of (err, fs') \<Rightarrow> (err, c', fs')))"


definition Converter_IDRToCAD :: "Converter \<Rightarrow> float64 \<Rightarrow> float64" where
  "Converter_IDRToCAD c idr =
     (if R_CADToIDR (C_cache c) = Finite 0 then Finite 0
      else fdiv idr (R_CADToIDR (C_cache c)))"

definition Converter_GetLastUpdatedString :: "golib \<Rightarrow> Converter \<Rightarrow> string" where
  "Converter_GetLastUpdatedString L c =
     (if IsZero (R_LastUpdated (C_cache c)) then ''never (using default rate)''
      else time_Format L ''Jan 2, 2006 at 3:04 PM'' (R_LastUpdated (C_cache c)))"

text \<open>The warning sign that opens the offline messages is U+26A0, three bytes in UTF-8.\<close>

definition warning_sign :: string where
  "warning_sign = [CHR 0xE2, CHR 0x9A, CHR 0xA0]"

definition Converter_GetStatusMessage :: "golib \<Rightarrow> Converter \<Rightarrow> string" where
  "Converter_GetStatusMessage L c =
     (if C_offline c then
        (if IsZero (R_LastUpdated (C_cache c)) then
           warning_sign @ '' Offline - using default rate (1 CAD = ''
             @ Sprintf_0f L (R_CADToIDR (C_cache c)) @ '' IDR)''
         else
           warning_sign @ '' Offline - using cached rate from ''
             @ time_Format L ''Jan 2'' (R_LastUpdated (C_cache c)))
      else
        ''Rate: 1 CAD = '' @ Sprintf_0f L (R_CADToIDR (C_cache c)) @ '' IDR (updated ''
          @ time_Format L ''Jan 2'' (R_LastUpdated (C_cache c)) @ '')'')"

section \<open>TypeScript: the currency converter\<close>

text \<open>\<open>src/services/currencyConverter.ts\<close>.\<close>

definition CACHE_FILE_NAME :: string where
  "CACHE_FILE_NAME = ''.rate_cache.json''"

definition DEFAULT_CAD_TO_IDR :: float64 where
  "DEFAULT_CAD_TO_IDR = Finite 11800"

record CurrencyConverter =
  cc_cacheDir :: string
  cc_cache :: tsRateCache
  cc_offline :: bool
  cc_lastError :: "string option"

definition CurrencyConverter_getCachePath :: "CurrencyConverter \<Rightarrow> string" where
  "CurrencyConverter_getCachePath c = path_join (cc_cacheDir c) CACHE_FILE_NAME"

definition CurrencyConverter_loadCacheSync :: "jslib \<Rightarrow> files \<Rightarrow> CurrencyConverter \<Rightarrow> CurrencyConverter" where
  "CurrencyConverter_loadCacheSync J fs c =
     (case fs (CurrencyConverter_getCachePath c) of
        None \<Rightarrow> c\<lparr>cc_cache := \<lparr>cad_to_idr = DEFAULT_CAD_TO_IDR, last_updated = []\<rparr>\<rparr>
      | Some text \<Rightarrow>
          (case JSON_parse J text of
             None \<Rightarrow> c\<lparr>cc_cache := \<lparr>cad_to_idr = DEFAULT_CAD_TO_IDR, last_updated = []\<rparr>\<rparr>
           | Some data \<Rightarrow> c\<lparr>cc_cache := data\<rparr>))"

definition CurrencyConverter_constructor :: "jslib \<Rightarrow> files \<Rightarrow> string \<Rightarrow> CurrencyConverter" where
  "CurrencyConverter_constructor J fs cacheDir =
     CurrencyConverter_loadCacheSync J fs
       \<lparr>cc_cacheDir = cacheDir,
        cc_cache = \<lparr>cad_to_idr = DEFAULT_CAD_TO_IDR, last_updated = []\<rparr>,
        cc_offline = False, cc_lastError = None\<rparr>"

text \<open>
  \<open>saveCache\<close>: \<open>fault\<close> is what \<open>Bun.write\<close> throws, \<open>None\<close> when it writes. The result is
  what \<open>saveCache\<close> throws and the files it leaves; a write that fails leaves the file as it
  was.
\<close>

definition CurrencyConverter_saveCache ::
  "jslib \<Rightarrow> files \<Rightarrow> CurrencyConverter \<Rightarrow> string option \<Rightarrow> string option \<times> files" where
  "CurrencyConverter_saveCache J fs c fault =
     (case fault of
        Some err \<Rightarrow> (Some err, fs)
      | None \<Rightarrow> (None, fs(CurrencyConverter_getCachePath c \<mapsto> JSON_stringify J (cc_cache c))))"

text \<open>
  \<open>refreshRate\<close>: \<open>fetched\<close> is the outcome of \<open>fetchCADToIDR()\<close> (\<open>Inl\<close> what it threw),
  \<open>nowISO\<close> is \<open>new Date().toISOString()\<close>, \<open>fault\<close> is for \<open>saveCache\<close>. The first component is
  the error rethrown. \<open>saveCache\<close> runs inside the \<open>try\<close>, after the cache and the flags are
  set: when it throws, the \<open>catch\<close> sets the offline flag and the last error and throws
  again, and the cache stays overwritten. A response without a number for the rate gives
  \<open>undefined\<close>, which the arithmetic and \<open>Math.round\<close> treat as NaN; it is read as NaN here.
\<close>

definition CurrencyConverter_refreshRate ::
  "jslib \<Rightarrow> files \<Rightarrow> CurrencyConverter \<Rightarrow> string + float64 \<Rightarrow> string \<Rightarrow> string option
     \<Rightarrow> string option \<times> CurrencyConverter \<times> files" where
  "CurrencyConverter_refreshRate J fs c fetched nowISO fault =
     (case fetched of
        Inr rate \<Rightarrow>
          (let c' = c\<lparr>cc_cache := \<lparr>cad_to_idr = rate, last_updated = nowISO\<rparr>,
                      cc_offline := False, cc_lastError := None\<rparr>
           in case CurrencyConverter_saveCache J fs c' fault of
                (None, fs') \<Rightarrow> (None, c', fs')
              | (Some err, fs') \<Rightarrow> (Some err, c'\<lparr>cc_offline := True, cc_lastError := Some err\<rparr>, fs'))
      | Inl err \<Rightarrow> (Some err, c\<lparr>cc_offline := True, cc_lastError := Some err\<rparr>, fs))"


definition CurrencyConverter_idrToCAD :: "CurrencyConverter \<Rightarrow> float64 \<Rightarrow> float64" where
  "CurrencyConverter_idrToCAD c idr =
     (if cad_to_idr (cc_cache c) = Finite 0 then Finite 0
      else fdiv idr (cad_to_idr (cc_cache c)))"

definition shortMonths :: "string list" where
  "shortMonths = [''Jan'', ''Feb'', ''Mar'', ''Apr'', ''May'', ''Jun'',
                  ''Jul'', ''Aug'', ''Sep'', ''Oct'', ''Nov'', ''Dec'']"

text \<open>
  \<open>shortMonths[lastDate.getMonth()]\<close> and \<open>lastDate.getDate()\<close> inside a template string:
  an invalid date gives NaN for both getters, the array read gives \<open>undefined\<close>, and the
  template prints the words.
\<close>

definition template_month :: "jsDate option \<Rightarrow> string" where
  "template_month lastDate =
     (case lastDate of
        None \<Rightarrow> ''undefined''
      | Some d \<Rightarrow>
          (if 0 \<le> getMonth d \<and> getMonth d < 12 then shortMonths ! nat (getMonth d)
           else ''undefined''))"

definition template_day :: "jsDate option \<Rightarrow> string" where
  "template_day lastDate = (case lastDate of None \<Rightarrow> ''NaN'' | Some d \<Rightarrow> show_int (getDate d))"

definition padStart2 :: "string \<Rightarrow> string" where
  "padStart2 s = replicate (2 - length s) (CHR ''0'') @ s"

text \<open>
  \<open>formatDateTimeHuman\<close> of \<open>utils/format.ts\<close>. On an invalid date the month is
  \<open>undefined\<close>, the numbers print as NaN, \<open>NaN >= 12\<close> is false and \<open>NaN % 12 || 12\<close> is 12.
\<close>

definition formatDateTimeHuman :: "jsDate option \<Rightarrow> string" where
  "formatDateTimeHuman date =
     (case date of
        None \<Rightarrow> template_month None @ '' '' @ template_day None @ '', NaN at 12:NaN AM''
      | Some d \<Rightarrow>
          (let hours = getHours d;
               minutes = getMinutes d;
               ampm = (if hours \<ge> 12 then ''PM'' else ''AM'');
               hour12 = (if hours mod 12 = 0 then 12 else hours mod 12);
               minuteStr = padStart2 (show_int minutes)
           in template_month date @ '' '' @ template_day date @ '', '' @ show_int (getFullYear d)
                @ '' at '' @ show_int hour12 @ '':'' @ minuteStr @ '' '' @ ampm))"

definition CurrencyConverter_getLastUpdatedString :: "jslib \<Rightarrow> CurrencyConverter \<Rightarrow> string" where
  "CurrencyConverter_getLastUpdatedString J c =
     (if last_updated (cc_cache c) = [] then ''never (using default rate)''
      else formatDateTimeHuman (newDateOfString J (last_updated (cc_cache c))))"

definition CurrencyConverter_getStatusMessage :: "jslib \<Rightarrow> CurrencyConverter \<Rightarrow> string" where
  "CurrencyConverter_getStatusMessage J c =
     (if cc_offline c then
        (if last_updated (cc_cache c) = [] then
           ''Offline - using default rate (1 CAD = ''
             @ roundString J (cad_to_idr (cc_cache c)) @ '' IDR)''
         else
           (let lastDate = newDateOfString J (last_updated (cc_cache c))
            in ''Offline - using cached rate from '' @ template_month lastDate @ '' ''
                 @ template_day lastDate))
      else
        (let lastDate = newDateOfString J (last_updated (cc_cache c))
         in ''Rate: 1 CAD = '' @ roundString J (cad_to_idr (cc_cache c)) @ '' IDR (updated ''
              @ template_month lastDate @ '' '' @ template_day lastDate @ '')''))"

section \<open>TypeScript: the day store\<close>

text \<open>\<open>src/services/csvManager.ts\<close>, with the helpers of \<open>src/utils\<close> it calls.\<close>

definition DATA_DIR :: string where
  "DATA_DIR = ''ledger-data''"

definition CSV_HEADER :: string where
  "CSV_HEADER = ''date,description,cad,idr,screen_time''"

definition CSV_FILE_NAME :: string where
  "CSV_FILE_NAME = ''data.csv''"

definition JOURNAL_FILE_NAME :: string where
  "JOURNAL_FILE_NAME = ''entry.md''"

definition CSVManager_getDayDir :: "string \<Rightarrow> jsDate \<Rightarrow> string" where
  "CSVManager_getDayDir dataDir date =
     (let y = show_int (getFullYear date);
          m = padStart2 (show_int (getMonth date + 1));
          d = padStart2 (show_int (getDate date))
      in path_join (path_join (path_join dataDir y) m) d)"

definition CSVManager_getFilePath :: "string \<Rightarrow> jsDate \<Rightarrow> string" where
  "CSVManager_getFilePath dataDir date = path_join (CSVManager_getDayDir dataDir date) CSV_FILE_NAME"

definition CSVManager_getJournalPath :: "string \<Rightarrow> jsDate \<Rightarrow> string" where
  "CSVManager_getJournalPath dataDir date =
     path_join (CSVManager_getDayDir dataDir date) JOURNAL_FILE_NAME"

text \<open>\<open>ensureDayDir\<close> writes an empty \<open>.keep\<close> file unless there is one.\<close>

definition CSVManager_ensureDayDir :: "string \<Rightarrow> files \<Rightarrow> jsDate \<Rightarrow> files" where
  "CSVManager_ensureDayDir dataDir fs date =
     (let keepFile = path_join (CSVManager_getDayDir dataDir date) ''.keep''
      in if fs keepFile = None then fs(keepFile \<mapsto> []) else fs)"

definition CSVManager_loadJournal :: "string \<Rightarrow> files \<Rightarrow> jsDate \<Rightarrow> string" where
  "CSVManager_loadJournal dataDir fs date =
     (case fs (CSVManager_getJournalPath dataDir date) of None \<Rightarrow> [] | Some text \<Rightarrow> text)"

definition CSVManager_saveJournal :: "string \<Rightarrow> files \<Rightarrow> jsDate \<Rightarrow> string \<Rightarrow> files" where
  "CSVManager_saveJournal dataDir fs date content =
     (CSVManager_ensureDayDir dataDir fs date)(CSVManager_getJournalPath dataDir date \<mapsto> content)"

text \<open>
  \<open>parseCSVLine\<close>: the loop over the characters of a line, with the fields so far (\<open>flds\<close>), the
  field being read and the quote flag. A quote inside quotes that is followed by a quote
  is one quote character, and the loop steps over both.
\<close>

definition dquote :: char where
  "dquote = CHR 0x22"

definition newline :: char where
  "newline = CHR 0x0A"

fun parseCSVLine_loop :: "string \<Rightarrow> string list \<Rightarrow> string \<Rightarrow> bool \<Rightarrow> string list" where
  "parseCSVLine_loop [] flds current inQuotes = flds @ [current]"
| "parseCSVLine_loop [c] flds current inQuotes =
     (if c = dquote then parseCSVLine_loop [] flds current (\<not> inQuotes)
      else if c = CHR '','' \<and> \<not> inQuotes then parseCSVLine_loop [] (flds @ [current]) [] inQuotes
      else parseCSVLine_loop [] flds (current @ [c]) inQuotes)"
| "parseCSVLine_loop (c # c' # rest) flds current inQuotes =
     (if c = dquote then
        (if inQuotes \<and> c' = dquote then parseCSVLine_loop rest flds (current @ [dquote]) inQuotes
         else parseCSVLine_loop (c' # rest) flds current (\<not> inQuotes))
      else if c = CHR '','' \<and> \<not> inQuotes then
        parseCSVLine_loop (c' # rest) (flds @ [current]) [] inQuotes
      else parseCSVLine_loop (c' # rest) flds (current @ [c]) inQuotes)"

definition parseCSVLine :: "string \<Rightarrow> string list" where
  "parseCSVLine line = parseCSVLine_loop line [] [] False"

definition escapeCSVField :: "string \<Rightarrow> string" where
  "escapeCSVField field =
     (if CHR '','' \<in> set field \<or> dquote \<in> set field \<or> newline \<in> set field then
        [dquote] @ concat (map (\<lambda>c. if c = dquote then [dquote, dquote] else [c]) field) @ [dquote]
      else field)"

text \<open>\<open>content.split('\n')\<close>: the pieces between the separators, the empty ones included.\<close>

fun split_on :: "char \<Rightarrow> string \<Rightarrow> string list" where
  "split_on sep [] = [[]]"
| "split_on sep (c # cs) =
     (if c = sep then [] # split_on sep cs
      else (case split_on sep cs of [] \<Rightarrow> [[c]] | l # ls \<Rightarrow> (c # l) # ls))"

text \<open>\<open>parts.join(sep)\<close>.\<close>

fun join_with :: "string \<Rightarrow> string list \<Rightarrow> string" where
  "join_with sep [] = []"
| "join_with sep [x] = x"
| "join_with sep (x # y # xs) = x @ sep @ join_with sep (y # xs)"

text \<open>
  \<open>String.prototype.trim\<close> on the white space of ASCII (tab, line feed, vertical tab, form
  feed, carriage return, space); the white space beyond ASCII is not modelled.
\<close>

definition is_space :: "char \<Rightarrow> bool" where
  "is_space c = (c \<in> set [CHR 0x09, CHR 0x0A, CHR 0x0B, CHR 0x0C, CHR 0x0D, CHR 0x20])"

definition trim :: "string \<Rightarrow> string" where
  "trim s = rev (dropWhile is_space (rev (dropWhile is_space s)))"

text \<open>
  \<open>parseISODate\<close>: the text must match \<open>^(\d{4})-(\d{2})-(\d{2})$\<close>; the three groups are
  read with \<open>parseInt\<close> and given to \<open>createDate\<close>, which is \<open>new Date(y, m, d, 0, 0, 0, 0)\<close>.
\<close>

definition is_digit :: "char \<Rightarrow> bool" where
  "is_digit c = (48 \<le> (of_char c :: nat) \<and> (of_char c :: nat) \<le> 57)"

definition parseInt :: "string \<Rightarrow> int" where
  "parseInt ds = foldl (\<lambda>n c. 10 * n + (int (of_char c) - 48)) 0 ds"

definition matches_iso_date :: "string \<Rightarrow> bool" where
  "matches_iso_date s =
     (length s = 10 \<and> list_all is_digit (take 4 s) \<and> s ! 4 = CHR ''-''
      \<and> list_all is_digit (take 2 (drop 5 s)) \<and> s ! 7 = CHR ''-''
      \<and> list_all is_digit (take 2 (drop 8 s)))"

definition parseISODate :: "jslib \<Rightarrow> string \<Rightarrow> jsDate option" where
  "parseISODate J dateStr =
     (if \<not> matches_iso_date dateStr then None
      else
        (let year = parseInt (take 4 dateStr);
             month = parseInt (take 2 (drop 5 dateStr)) - 1;
             day = parseInt (take 2 (drop 8 dateStr))
         in Some (newDate J year month day)))"

definition formatDateISO :: "jsDate \<Rightarrow> string" where
  "formatDateISO date =
     (let y = getFullYear date;
          m = padStart2 (show_int (getMonth date + 1));
          d = padStart2 (show_int (getDate date))
      in show_int y @ ''-'' @ m @ ''-'' @ d)"

text \<open>
  \<open>createEntry\<close> of \<open>src/types/entry.ts\<close>; \<open>now\<close> is what \<open>Date.now()\<close> returns at the call.
\<close>

definition createEntry :: "int \<Rightarrow> jsDate \<Rightarrow> string \<Rightarrow> float64 \<Rightarrow> float64 \<Rightarrow> string \<Rightarrow> tsEntry" where
  "createEntry now date description cad idr screenTime =
     (let descPrefix = take (min 8 (length description)) description
      in \<lparr>e_id = show_int now @ ''-'' @ descPrefix, e_date = date, e_description = description,
          e_cad = cad, e_idr = idr, e_screenTime = screenTime\<rparr>)"

text \<open>\<open>x || 0\<close> on a number: NaN and zero are the falsy numbers.\<close>

definition or_zero :: "float64 \<Rightarrow> float64" where
  "or_zero x = (if x = NaN \<or> x = Finite 0 then Finite 0 else x)"

text \<open>
  The loop of \<open>loadDay\<close> over the lines after the header. \<open>clk k\<close> is the reading of
  \<open>Date.now()\<close> for the \<open>k\<close>-th entry the call creates.
\<close>

fun loadDay_loop :: "jslib \<Rightarrow> (nat \<Rightarrow> int) \<Rightarrow> nat \<Rightarrow> string list \<Rightarrow> tsDay \<Rightarrow> tsDay" where
  "loadDay_loop J clk k [] day = day"
| "loadDay_loop J clk k (line # rest) day =
     (let record = parseCSVLine line
      in if length record < 5 then loadDay_loop J clk k rest day
         else
           (case parseISODate J (record ! 0) of
              None \<Rightarrow> loadDay_loop J clk k rest day
            | Some entryDate \<Rightarrow>
                (let cad = or_zero (parseFloat J (record ! 2));
                     idr = or_zero (parseFloat J (record ! 3));
                     screenTime = record ! 4;
                     entry = createEntry (clk k) entryDate (record ! 1) cad idr screenTime;
                     day1 = day\<lparr>d_entries := d_entries day @ [entry]\<rparr>;
                     day2 = (if d_screenTime day1 = [] \<and> screenTime \<noteq> [] then
                               day1\<lparr>d_screenTime := screenTime,
                                    d_entries := map (\<lambda>e. e\<lparr>e_screenTime := screenTime\<rparr>)
                                                   (d_entries day1)\<rparr>
                             else day1)
                 in loadDay_loop J clk (k + 1) rest day2)))"

definition CSVManager_loadDay :: "jslib \<Rightarrow> string \<Rightarrow> files \<Rightarrow> (nat \<Rightarrow> int) \<Rightarrow> jsDate \<Rightarrow> tsDay" where
  "CSVManager_loadDay J dataDir fs clk date =
     (let day = createDay date;
          day' = (case fs (CSVManager_getFilePath dataDir date) of
                    None \<Rightarrow> day
                  | Some content \<Rightarrow>
                      (let lines = filter (\<lambda>line. trim line \<noteq> []) (split_on newline content)
                       in loadDay_loop J clk 0 (drop 1 lines) day))
      in day'\<lparr>d_journal := CSVManager_loadJournal dataDir fs date\<rparr>)"

definition csv_record :: "jslib \<Rightarrow> tsDay \<Rightarrow> tsEntry \<Rightarrow> string list" where
  "csv_record J day entry =
     [formatDateISO (e_date entry), escapeCSVField (e_description entry),
      toFixed2 J (e_cad entry), roundString J (e_idr entry), d_screenTime day]"

definition CSVManager_saveDay :: "jslib \<Rightarrow> string \<Rightarrow> files \<Rightarrow> tsDay \<Rightarrow> files" where
  "CSVManager_saveDay J dataDir fs day =
     (let fs1 = CSVManager_ensureDayDir dataDir fs (d_date day);
          fs2 = (if length (d_entries day) > 0 then
                   (let lines = CSV_HEADER # map (\<lambda>entry. join_with '','' (csv_record J day entry))
                                                (d_entries day)
                    in fs1(CSVManager_getFilePath dataDir (d_date day)
                             \<mapsto> join_with [newline] lines @ [newline]))
                 else fs1)
      in if d_journal day \<noteq> [] then CSVManager_saveJournal dataDir fs2 (d_date day) (d_journal day)
         else fs2)"

section \<open>Go: the day store, the service and the undo manager\<close>

text \<open>
  \<open>internal/ledger/csv.go\<close>. A \<open>CSVManager\<close> is its data directory, and so is the
  \<open>Service\<close> that wraps one. Creating directories leaves no trace in the files, and failures
  of the operating system other than a missing file are not modelled.
\<close>

definition DataDir :: string where
  "DataDir = ''ledger-data''"

definition DateFormat :: string where
  "DateFormat = ''2006-01-02''"

definition CSVHeader :: string where
  "CSVHeader = ''date,description,cad,idr,screen_time''"

definition CSVFileName :: string where
  "CSVFileName = ''data.csv''"

definition JournalFileName :: string where
  "JournalFileName = ''entry.md''"

definition CSVManager_GetDayDir :: "golib \<Rightarrow> string \<Rightarrow> Time \<Rightarrow> string" where
  "CSVManager_GetDayDir L dataDir date =
     path_join (path_join (path_join dataDir (time_Format L ''2006'' date))
                  (time_Format L ''01'' date)) (time_Format L ''02'' date)"

definition CSVManager_GetFilePath :: "golib \<Rightarrow> string \<Rightarrow> Time \<Rightarrow> string" where
  "CSVManager_GetFilePath L dataDir date = path_join (CSVManager_GetDayDir L dataDir date) CSVFileName"

definition CSVManager_GetJournalPath :: "golib \<Rightarrow> string \<Rightarrow> Time \<Rightarrow> string" where
  "CSVManager_GetJournalPath L dataDir date =
     path_join (CSVManager_GetDayDir L dataDir date) JournalFileName"

definition CSVManager_LoadJournal :: "golib \<Rightarrow> string \<Rightarrow> files \<Rightarrow> Time \<Rightarrow> string" where
  "CSVManager_LoadJournal L dataDir fs date =
     (case fs (CSVManager_GetJournalPath L dataDir date) of None \<Rightarrow> [] | Some data \<Rightarrow> data)"

definition CSVManager_SaveJournal :: "golib \<Rightarrow> string \<Rightarrow> files \<Rightarrow> Time \<Rightarrow> string \<Rightarrow> files" where
  "CSVManager_SaveJournal L dataDir fs date content =
     fs(CSVManager_GetJournalPath L dataDir date \<mapsto> content)"

text \<open>
  \<open>NewEntry\<close> of \<open>entry.go\<close>; \<open>now\<close> is \<open>time.Now().UnixNano()\<close> at the call, and the id
  is \<open>fmt.Sprintf("%d-%s", now, description[:min(8, len(description))])\<close>.
\<close>

definition Entry_DateString :: "golib \<Rightarrow> Entry \<Rightarrow> string" where
  "Entry_DateString L e = time_Format L ''2006-01-02'' (E_Date e)"

definition NewEntry :: "int \<Rightarrow> Time \<Rightarrow> string \<Rightarrow> float64 \<Rightarrow> float64 \<Rightarrow> string \<Rightarrow> Entry" where
  "NewEntry now date description cad idr screenTime =
     \<lparr>E_ID = show_int now @ ''-'' @ take (min 8 (length description)) description,
      E_Date = date, E_Description = description, E_CAD = cad, E_IDR = idr,
      E_ScreenTime = screenTime\<rparr>"

text \<open>
  \<open>cad, err := strconv.ParseFloat(record[2], 64); if err != nil { cad = 0 }\<close>, and the same
  for the IDR column.
\<close>

definition parse_amount :: "golib \<Rightarrow> string \<Rightarrow> float64" where
  "parse_amount L s = (case ParseFloat L s of None \<Rightarrow> Finite 0 | Some v \<Rightarrow> v)"

text \<open>
  The loop of \<open>LoadDay\<close> over the records after the header. \<open>clk k\<close> is the clock reading
  of the \<open>k\<close>-th \<open>NewEntry\<close> of the call.
\<close>

fun LoadDay_loop :: "golib \<Rightarrow> (nat \<Rightarrow> int) \<Rightarrow> nat \<Rightarrow> string list list \<Rightarrow> Day \<Rightarrow> Day" where
  "LoadDay_loop L clk k [] day = day"
| "LoadDay_loop L clk k (record # rest) day =
     (if length record < 5 then LoadDay_loop L clk k rest day
      else
        (case time_Parse L DateFormat (record ! 0) of
           None \<Rightarrow> LoadDay_loop L clk k rest day
         | Some entryDate \<Rightarrow>
             (let cad = parse_amount L (record ! 2);
                  idr = parse_amount L (record ! 3);
                  entry = NewEntry (clk k) entryDate (record ! 1) cad idr (record ! 4);
                  day1 = Day_AddEntry day entry;
                  day2 = (if D_ScreenTime day1 = [] \<and> record ! 4 \<noteq> [] then
                            Day_SetScreenTime day1 (record ! 4)
                          else day1)
              in LoadDay_loop L clk (k + 1) rest day2)))"

text \<open>\<open>LoadDay\<close> returns the day, or \<open>Inl\<close> the error when the CSV reader fails.\<close>

definition CSVManager_LoadDay ::
  "golib \<Rightarrow> string \<Rightarrow> files \<Rightarrow> (nat \<Rightarrow> int) \<Rightarrow> Time \<Rightarrow> string + Day" where
  "CSVManager_LoadDay L dataDir fs clk date =
     (let day = NewDay date;
          journal = CSVManager_LoadJournal L dataDir fs date
      in case fs (CSVManager_GetFilePath L dataDir date) of
           None \<Rightarrow> Inr (day\<lparr>D_Journal := journal\<rparr>)
         | Some file \<Rightarrow>
             (case csv_ReadAll L file of
                Inl err \<Rightarrow> Inl (''failed to read CSV: '' @ err)
              | Inr records \<Rightarrow>
                  Inr ((LoadDay_loop L clk 0 (drop 1 records) day)\<lparr>D_Journal := journal\<rparr>)))"

definition SaveDay_record :: "golib \<Rightarrow> Day \<Rightarrow> Entry \<Rightarrow> string list" where
  "SaveDay_record L day entry =
     [Entry_DateString L entry, E_Description entry, Sprintf_2f L (E_CAD entry),
      Sprintf_0f L (E_IDR entry), D_ScreenTime day]"

definition CSVManager_SaveDay :: "golib \<Rightarrow> string \<Rightarrow> files \<Rightarrow> Day \<Rightarrow> files" where
  "CSVManager_SaveDay L dataDir fs day =
     (let fs1 = (if length (D_Entries day) > 0 then
                   fs(CSVManager_GetFilePath L dataDir (D_Date day)
                        \<mapsto> csv_Write L (split_on (CHR '','') CSVHeader
                                           # map (SaveDay_record L day) (D_Entries day)))
                 else fs)
      in if D_Journal day \<noteq> [] then CSVManager_SaveJournal L dataDir fs1 (D_Date day) (D_Journal day)
         else fs1)"

text \<open>\<open>internal/ledger/service.go\<close>: the service holds a CSV manager and nothing else.\<close>

definition Service_GetDay :: "golib \<Rightarrow> string \<Rightarrow> files \<Rightarrow> (nat \<Rightarrow> int) \<Rightarrow> Time \<Rightarrow> string + Day" where
  "Service_GetDay L dataDir fs clk date = CSVManager_LoadDay L dataDir fs clk date"

definition Service_SaveDay :: "golib \<Rightarrow> string \<Rightarrow> files \<Rightarrow> Day \<Rightarrow> files" where
  "Service_SaveDay L dataDir fs day =
     (if Day_IsEmpty day then fs else CSVManager_SaveDay L dataDir fs day)"

text \<open>
  \<open>UndoManager.Undo\<close> of \<open>undo.go\<close>. The result holds the message and the error the call
  returns, the stack and the files it leaves, and the day it loaded and changed (none when
  the stack was empty or the load failed). \<open>None\<close> stands for the panic of reading the
  entry of an action that has none.
\<close>

record UndoResult =
  U_msg :: string
  U_err :: "string option"
  U_stack :: UndoStack
  U_files :: files
  U_day :: "Day option"

definition UndoManager_Undo ::
  "golib \<Rightarrow> string \<Rightarrow> UndoStack \<Rightarrow> files \<Rightarrow> (nat \<Rightarrow> int) \<Rightarrow> UndoResult option" where
  "UndoManager_Undo L dataDir stack fs clk =
     (case UndoStack_Pop stack of
        (None, stack') \<Rightarrow>
          Some \<lparr>U_msg = [], U_err = None, U_stack = stack', U_files = fs, U_day = None\<rparr>
      | (Some action, stack') \<Rightarrow>
          (case Service_GetDay L dataDir fs clk (A_Date action) of
             Inl err \<Rightarrow>
               Some \<lparr>U_msg = [], U_err = Some err, U_stack = stack', U_files = fs, U_day = None\<rparr>
           | Inr day \<Rightarrow>
               (case A_Type action of
                  ActionAddEntry \<Rightarrow>
                    (case A_Entry action of
                       None \<Rightarrow> None
                     | Some entry \<Rightarrow>
                         (let day' = snd (Day_RemoveEntry day (E_ID entry))
                          in Some \<lparr>U_msg = ''Undo: Removed '' @ [CHR 0x27]
                                       @ truncate_str (E_Description entry) 20 @ [CHR 0x27],
                                    U_err = None, U_stack = stack',
                                    U_files = Service_SaveDay L dataDir fs day',
                                    U_day = Some day'\<rparr>))
                | ActionDeleteEntry \<Rightarrow>
                    (case A_Entry action of
                       None \<Rightarrow> None
                     | Some entry \<Rightarrow>
                         (let day' = Day_AddEntry day entry
                          in Some \<lparr>U_msg = ''Undo: Restored '' @ [CHR 0x27]
                                       @ truncate_str (E_Description entry) 20 @ [CHR 0x27],
                                    U_err = None, U_stack = stack',
                                    U_files = Service_SaveDay L dataDir fs day',
                                    U_day = Some day'\<rparr>))
                | ActionEditEntry \<Rightarrow>
                    (case A_OldEntry action of
                       None \<Rightarrow> None
                     | Some oldEntry \<Rightarrow>
                         (let day' = snd (Day_UpdateEntry day oldEntry)
                          in Some \<lparr>U_msg = ''Undo: Reverted '' @ [CHR 0x27]
                                       @ truncate_str (E_Description oldEntry) 20 @ [CHR 0x27],
                                    U_err = None, U_stack = stack',
                                    U_files = Service_SaveDay L dataDir fs day',
                                    U_day = Some day'\<rparr>))
                | ActionSetScreenTime \<Rightarrow>
                    (let day' = Day_SetScreenTime day (A_OldScreenTime action)
                     in Some \<lparr>U_msg = ''Undo: Restored screen time to '' @ [CHR 0x27]
                                  @ A_OldScreenTime action @ [CHR 0x27],
                               U_err = None, U_stack = stack',
                               U_files = Service_SaveDay L dataDir fs day',
                               U_day = Some day'\<rparr>))))"

definition UndoManager_CanUndo :: "UndoStack \<Rightarrow> bool" where
  "UndoManager_CanUndo stack = (\<not> UndoStack_IsEmpty stack)"

definition UndoManager_RecordAddEntry :: "UndoStack \<Rightarrow> Time \<Rightarrow> Entry \<Rightarrow> UndoStack" where
  "UndoManager_RecordAddEntry stack date entry = UndoStack_PushAddEntry stack date entry"


definition UndoManager_RecordEditEntry :: "UndoStack \<Rightarrow> Time \<Rightarrow> Entry \<Rightarrow> Entry \<Rightarrow> UndoStack" where
  "UndoManager_RecordEditEntry stack date oldEntry newEntry =
     UndoStack_PushEditEntry stack date oldEntry newEntry"

definition UndoManager_RecordSetScreenTime :: "UndoStack \<Rightarrow> Time \<Rightarrow> string \<Rightarrow> string \<Rightarrow> UndoStack" where
  "UndoManager_RecordSetScreenTime stack date oldScreenTime newScreenTime =
     UndoStack_PushSetScreenTime stack date oldScreenTime newScreenTime"

section \<open>TypeScript: the ledger service and the undo manager\<close>

text \<open>
  Day objects are shared by reference between the cache, the views and the undo manager,
  so they live in a store: \<open>w_heap\<close> lists the Day objects made so far and a reference is
  an index into it. \<open>w_dayCache\<close> is the \<open>Map\<close> of the service, from cache keys to
  references. The world also holds the files.
\<close>

record world =
  w_files :: files
  w_heap :: "tsDay list"
  w_dayCache :: "string \<rightharpoonup> nat"

definition LedgerService_getCacheKey :: "jsDate \<Rightarrow> string" where
  "LedgerService_getCacheKey date =
     show_int (getFullYear date) @ ''-'' @ show_int (getMonth date) @ ''-'' @ show_int (getDate date)"

text \<open>
  \<open>LedgerService.getDay\<close> returns the reference of the day. A Day object is truthy, so
  \<open>if (cached)\<close> asks whether the key is in the map.
\<close>

definition LedgerService_getDay ::
  "jslib \<Rightarrow> string \<Rightarrow> world \<Rightarrow> (nat \<Rightarrow> int) \<Rightarrow> jsDate \<Rightarrow> nat \<times> world" where
  "LedgerService_getDay J dataDir w clk date =
     (let key = LedgerService_getCacheKey date
      in case w_dayCache w key of
           Some cached \<Rightarrow> (cached, w)
         | None \<Rightarrow>
             (let day = CSVManager_loadDay J dataDir (w_files w) clk date;
                  ref = length (w_heap w)
              in (ref, w\<lparr>w_heap := w_heap w @ [day], w_dayCache := (w_dayCache w)(key \<mapsto> ref)\<rparr>)))"

definition LedgerService_saveDay :: "jslib \<Rightarrow> string \<Rightarrow> world \<Rightarrow> nat \<Rightarrow> world" where
  "LedgerService_saveDay J dataDir w ref =
     (let day = w_heap w ! ref;
          key = LedgerService_getCacheKey (d_date day)
      in w\<lparr>w_dayCache := (w_dayCache w)(key \<mapsto> ref),
           w_files := CSVManager_saveDay J dataDir (w_files w) day\<rparr>)"

definition LedgerService_invalidateCache :: "world \<Rightarrow> jsDate \<Rightarrow> world" where
  "LedgerService_invalidateCache w date =
     w\<lparr>w_dayCache := (w_dayCache w)(LedgerService_getCacheKey date := None)\<rparr>"

definition LedgerService_clearCache :: "world \<Rightarrow> world" where
  "LedgerService_clearCache w = w\<lparr>w_dayCache := Map.empty\<rparr>"

text \<open>
  \<open>findIndex\<close> by id followed by \<open>splice(index, 1)\<close>, and followed by an assignment at the
  index.
\<close>

fun splice_by_id :: "string \<Rightarrow> tsEntry list \<Rightarrow> tsEntry list" where
  "splice_by_id i [] = []"
| "splice_by_id i (e # es) = (if e_id e = i then es else e # splice_by_id i es)"

fun assign_by_id :: "tsEntry \<Rightarrow> tsEntry list \<Rightarrow> tsEntry list" where
  "assign_by_id entry [] = []"
| "assign_by_id entry (e # es) =
     (if e_id e = e_id entry then entry # es else e # assign_by_id entry es)"

text \<open>The functions of \<open>src/types/day.ts\<close> the service calls, on a day in the store.\<close>

definition addEntry :: "tsDay \<Rightarrow> tsEntry \<Rightarrow> tsDay" where
  "addEntry day entry = day\<lparr>d_entries := d_entries day @ [entry\<lparr>e_screenTime := d_screenTime day\<rparr>]\<rparr>"

definition removeEntry :: "tsDay \<Rightarrow> string \<Rightarrow> tsEntry option \<times> tsDay" where
  "removeEntry day i =
     (find (\<lambda>e. e_id e = i) (d_entries day), day\<lparr>d_entries := splice_by_id i (d_entries day)\<rparr>)"

definition setScreenTime :: "tsDay \<Rightarrow> string \<Rightarrow> tsDay" where
  "setScreenTime day screenTime =
     day\<lparr>d_screenTime := screenTime,
         d_entries := map (\<lambda>entry. entry\<lparr>e_screenTime := screenTime\<rparr>) (d_entries day)\<rparr>"

definition isEmpty :: "tsDay \<Rightarrow> bool" where
  "isEmpty day = (length (d_entries day) = 0 \<and> d_journal day = [])"

text \<open>The recording methods of \<open>UndoStack\<close>; \<open>UndoManager.recordX\<close> forwards to them.\<close>

definition UndoStack_pushAddEntry :: "tsUndoAction list \<Rightarrow> jsDate \<Rightarrow> tsEntry \<Rightarrow> tsUndoAction list" where
  "UndoStack_pushAddEntry acts date entry =
     UndoStack_push acts
       \<lparr>a_type = AddEntry, a_date = date, a_entry = Some (cloneEntry entry), a_oldEntry = None,
        a_screenTime = None, a_oldScreenTime = None, a_journal = None, a_oldJournal = None,
        a_description = ''Added '' @ [CHR 0x27] @ truncate_str (e_description entry) 20 @ [CHR 0x27]\<rparr>"

definition UndoStack_pushDeleteEntry :: "tsUndoAction list \<Rightarrow> jsDate \<Rightarrow> tsEntry \<Rightarrow> tsUndoAction list" where
  "UndoStack_pushDeleteEntry acts date entry =
     UndoStack_push acts
       \<lparr>a_type = DeleteEntry, a_date = date, a_entry = Some (cloneEntry entry), a_oldEntry = None,
        a_screenTime = None, a_oldScreenTime = None, a_journal = None, a_oldJournal = None,
        a_description = ''Deleted '' @ [CHR 0x27] @ truncate_str (e_description entry) 20 @ [CHR 0x27]\<rparr>"

definition UndoStack_pushEditEntry ::
  "tsUndoAction list \<Rightarrow> jsDate \<Rightarrow> tsEntry \<Rightarrow> tsEntry \<Rightarrow> tsUndoAction list" where
  "UndoStack_pushEditEntry acts date oldEntry newEntry =
     UndoStack_push acts
       \<lparr>a_type = EditEntry, a_date = date, a_entry = Some (cloneEntry newEntry),
        a_oldEntry = Some (cloneEntry oldEntry),
        a_screenTime = None, a_oldScreenTime = None, a_journal = None, a_oldJournal = None,
        a_description = ''Edited '' @ [CHR 0x27] @ truncate_str (e_description oldEntry) 20 @ [CHR 0x27]\<rparr>"

definition UndoStack_pushSetScreenTime ::
  "tsUndoAction list \<Rightarrow> jsDate \<Rightarrow> string \<Rightarrow> string \<Rightarrow> tsUndoAction list" where
  "UndoStack_pushSetScreenTime acts date oldScreenTime newScreenTime =
     UndoStack_push acts
       \<lparr>a_type = SetScreenTime, a_date = date, a_entry = None, a_oldEntry = None,
        a_screenTime = Some newScreenTime, a_oldScreenTime = Some oldScreenTime,
        a_journal = None, a_oldJournal = None,
        a_description = ''Changed screen time to '' @ [CHR 0x27] @ newScreenTime @ [CHR 0x27]\<rparr>"

definition UndoStack_pushSetJournal ::
  "tsUndoAction list \<Rightarrow> jsDate \<Rightarrow> string \<Rightarrow> string \<Rightarrow> tsUndoAction list" where
  "UndoStack_pushSetJournal acts date oldJournal newJournal =
     UndoStack_push acts
       \<lparr>a_type = SetJournal, a_date = date, a_entry = None, a_oldEntry = None,
        a_screenTime = None, a_oldScreenTime = None,
        a_journal = Some newJournal, a_oldJournal = Some oldJournal,
        a_description = ''Updated journal''\<rparr>"

definition UndoManager_recordAddEntry :: "tsUndoAction list \<Rightarrow> jsDate \<Rightarrow> tsEntry \<Rightarrow> tsUndoAction list" where
  "UndoManager_recordAddEntry acts date entry = UndoStack_pushAddEntry acts date entry"

definition UndoManager_recordDeleteEntry :: "tsUndoAction list \<Rightarrow> jsDate \<Rightarrow> tsEntry \<Rightarrow> tsUndoAction list" where
  "UndoManager_recordDeleteEntry acts date entry = UndoStack_pushDeleteEntry acts date entry"

definition UndoManager_recordEditEntry ::
  "tsUndoAction list \<Rightarrow> jsDate \<Rightarrow> tsEntry \<Rightarrow> tsEntry \<Rightarrow> tsUndoAction list" where
  "UndoManager_recordEditEntry acts date oldEntry newEntry =
     UndoStack_pushEditEntry acts date oldEntry newEntry"

definition UndoManager_recordSetScreenTime ::
  "tsUndoAction list \<Rightarrow> jsDate \<Rightarrow> string \<Rightarrow> string \<Rightarrow> tsUndoAction list" where
  "UndoManager_recordSetScreenTime acts date oldScreenTime newScreenTime =
     UndoStack_pushSetScreenTime acts date oldScreenTime newScreenTime"

definition UndoManager_recordSetJournal ::
  "tsUndoAction list \<Rightarrow> jsDate \<Rightarrow> string \<Rightarrow> string \<Rightarrow> tsUndoAction list" where
  "UndoManager_recordSetJournal acts date oldJournal newJournal =
     UndoStack_pushSetJournal acts date oldJournal newJournal"

text \<open>
  \<open>UndoManager.undo\<close>: the string returned (\<open>None\<close> for \<open>null\<close>), the stack and the world it
  leaves, and the reference of the day it worked on (none when the stack was empty).
  \<open>write_day\<close> stores the day object after the change made in place, before \<open>saveDay\<close> runs.
\<close>

definition write_day :: "world \<Rightarrow> nat \<Rightarrow> tsDay \<Rightarrow> world" where
  "write_day w ref day = w\<lparr>w_heap := (w_heap w)[ref := day]\<rparr>"

definition UndoManager_undo ::
  "jslib \<Rightarrow> string \<Rightarrow> tsUndoAction list \<Rightarrow> world \<Rightarrow> (nat \<Rightarrow> int)
     \<Rightarrow> string option \<times> tsUndoAction list \<times> world \<times> nat option" where
  "UndoManager_undo J dataDir acts w clk =
     (case UndoStack_pop acts of
        (None, acts') \<Rightarrow> (None, acts', w, None)
      | (Some action, acts') \<Rightarrow>
          (let (ref, w1) = LedgerService_getDay J dataDir w clk (a_date action);
               day = w_heap w1 ! ref
           in case a_type action of
                AddEntry \<Rightarrow>
                  (case a_entry action of
                     None \<Rightarrow> (None, acts', w1, Some ref)
                   | Some entry \<Rightarrow>
                       (let w2 = write_day w1 ref
                                   (day\<lparr>d_entries := splice_by_id (e_id entry) (d_entries day)\<rparr>)
                        in (Some (''Undo: Removed '' @ [CHR 0x27]
                                    @ truncate_str (e_description entry) 20 @ [CHR 0x27]),
                            acts', LedgerService_saveDay J dataDir w2 ref, Some ref)))
              | DeleteEntry \<Rightarrow>
                  (case a_entry action of
                     None \<Rightarrow> (None, acts', w1, Some ref)
                   | Some entry \<Rightarrow>
                       (let w2 = write_day w1 ref (day\<lparr>d_entries := d_entries day @ [entry]\<rparr>)
                        in (Some (''Undo: Restored '' @ [CHR 0x27]
                                    @ truncate_str (e_description entry) 20 @ [CHR 0x27]),
                            acts', LedgerService_saveDay J dataDir w2 ref, Some ref)))
              | EditEntry \<Rightarrow>
                  (case a_oldEntry action of
                     None \<Rightarrow> (None, acts', w1, Some ref)
                   | Some oldEntry \<Rightarrow>
                       (let w2 = write_day w1 ref
                                   (day\<lparr>d_entries := assign_by_id oldEntry (d_entries day)\<rparr>)
                        in (Some (''Undo: Reverted '' @ [CHR 0x27]
                                    @ truncate_str (e_description oldEntry) 20 @ [CHR 0x27]),
                            acts', LedgerService_saveDay J dataDir w2 ref, Some ref)))
              | SetScreenTime \<Rightarrow>
                  (case a_oldScreenTime action of
                     None \<Rightarrow> (None, acts', w1, Some ref)
                   | Some oldScreenTime \<Rightarrow>
                       (let w2 = write_day w1 ref
                                   (day\<lparr>d_screenTime := oldScreenTime,
                                        d_entries := map (\<lambda>entry. entry\<lparr>e_screenTime := oldScreenTime\<rparr>)
                                                       (d_entries day)\<rparr>)
                        in (Some (''Undo: Restored screen time to '' @ [CHR 0x27]
                                    @ oldScreenTime @ [CHR 0x27]),
                            acts', LedgerService_saveDay J dataDir w2 ref, Some ref)))
              | SetJournal \<Rightarrow>
                  (case a_oldJournal action of
                     None \<Rightarrow> (None, acts', w1, Some ref)
                   | Some oldJournal \<Rightarrow>
                       (let w2 = write_day w1 ref (day\<lparr>d_journal := oldJournal\<rparr>)
                        in (Some ''Undo: Restored journal'', acts',
                            LedgerService_saveDay J dataDir w2 ref, Some ref)))))"

definition UndoManager_canUndo :: "tsUndoAction list \<Rightarrow> bool" where
  "UndoManager_canUndo acts = (acts \<noteq> [])"

section \<open>Instances of the libraries for the examples\<close>

text \<open>
  To run the model on examples the library parameters need values. The instances below
  follow the libraries on the inputs the examples use: plain decimal numbers, dates of the
  years 0 to 9999 in the layouts the ledger formats, CSV text without line breaks inside
  fields. They read no rate cache: the JSON functions decode nothing.
\<close>

definition round_half_even :: "rat \<Rightarrow> int" where
  "round_half_even q =
     (let f = \<lfloor>q\<rfloor>; r = q - of_int f
      in if r < 1 / 2 then f else if 1 / 2 < r then f + 1 else if even f then f else f + 1)"

definition round_half_up :: "rat \<Rightarrow> int" where
  "round_half_up q = \<lfloor>q + 1 / 2\<rfloor>"

definition pad_left :: "nat \<Rightarrow> string \<Rightarrow> string" where
  "pad_left n s = replicate (n - length s) (CHR ''0'') @ s"

definition fixed2 :: "bool \<Rightarrow> int \<Rightarrow> string" where
  "fixed2 negative hundredths =
     (if negative then ''-'' else []) @ show_digits (hundredths div 100) @ ''.''
       @ pad_left 2 (show_digits (hundredths mod 100))"

definition plain_Sprintf_2f :: "float64 \<Rightarrow> string" where
  "plain_Sprintf_2f x =
     (case x of
        Finite q \<Rightarrow> fixed2 (q < 0) (round_half_even (\<bar>q\<bar> * 100))
      | PosInf \<Rightarrow> ''+Inf'' | NegInf \<Rightarrow> ''-Inf'' | NaN \<Rightarrow> ''NaN'')"

definition plain_Sprintf_0f :: "float64 \<Rightarrow> string" where
  "plain_Sprintf_0f x =
     (case x of
        Finite q \<Rightarrow> (if q < 0 then ''-'' else []) @ show_digits (round_half_even \<bar>q\<bar>)
      | PosInf \<Rightarrow> ''+Inf'' | NegInf \<Rightarrow> ''-Inf'' | NaN \<Rightarrow> ''NaN'')"

definition plain_toFixed2 :: "float64 \<Rightarrow> string" where
  "plain_toFixed2 x =
     (case x of
        Finite q \<Rightarrow> fixed2 (q < 0) (round_half_up (\<bar>q\<bar> * 100))
      | PosInf \<Rightarrow> ''Infinity'' | NegInf \<Rightarrow> ''-Infinity'' | NaN \<Rightarrow> ''NaN'')"

definition plain_roundString :: "float64 \<Rightarrow> string" where
  "plain_roundString x =
     (case x of
        Finite q \<Rightarrow> show_int (round_half_up q)
      | PosInf \<Rightarrow> ''Infinity'' | NegInf \<Rightarrow> ''-Infinity'' | NaN \<Rightarrow> ''NaN'')"

text \<open>
  A decimal literal: a sign, digits, a point and digits. The result is the number and the
  text left over.
\<close>

definition read_decimal :: "string \<Rightarrow> (rat \<times> string) option" where
  "read_decimal s =
     (let negative = (s \<noteq> [] \<and> hd s = CHR ''-'');
          body = (if s \<noteq> [] \<and> (hd s = CHR ''-'' \<or> hd s = CHR ''+'') then tl s else s);
          whole = takeWhile is_digit body;
          rest = dropWhile is_digit body;
          frac = (if rest \<noteq> [] \<and> hd rest = CHR ''.'' then takeWhile is_digit (tl rest) else []);
          rest' = (if rest \<noteq> [] \<and> hd rest = CHR ''.'' then dropWhile is_digit (tl rest) else rest);
          magnitude = of_int (parseInt whole) + of_int (parseInt frac) / 10 ^ length frac
      in if whole = [] \<and> frac = [] then None
         else Some (if negative then - magnitude else magnitude, rest'))"

definition plain_ParseFloat :: "string \<Rightarrow> float64 option" where
  "plain_ParseFloat s =
     (case read_decimal s of
        Some (q, []) \<Rightarrow> Some (Finite q)
      | _ \<Rightarrow> None)"

definition plain_parseFloat :: "string \<Rightarrow> float64" where
  "plain_parseFloat s =
     (case read_decimal (dropWhile is_space s) of
        Some (q, _) \<Rightarrow> Finite q
      | None \<Rightarrow> NaN)"

definition days_in_month :: "int \<Rightarrow> nat \<Rightarrow> nat" where
  "days_in_month y m =
     (if m = 2 then (if y mod 4 = 0 \<and> (y mod 100 \<noteq> 0 \<or> y mod 400 = 0) then 29 else 28)
      else if m = 4 \<or> m = 6 \<or> m = 9 \<or> m = 11 then 30 else 31)"

definition plain_time_Parse :: "string \<Rightarrow> string \<Rightarrow> Time option" where
  "plain_time_Parse layout s =
     (if layout \<noteq> ''2006-01-02'' \<or> \<not> matches_iso_date s then None
      else
        (let y = parseInt (take 4 s);
             m = nat (parseInt (take 2 (drop 5 s)));
             d = nat (parseInt (take 2 (drop 8 s)))
         in if 1 \<le> m \<and> m \<le> 12 \<and> 1 \<le> d \<and> d \<le> days_in_month y m
            then Some \<lparr>t_year = y, t_month = m, t_day = d, t_nsec = 0\<rparr>
            else None))"

definition plain_time_Format :: "string \<Rightarrow> Time \<Rightarrow> string" where
  "plain_time_Format layout t =
     (let year4 = pad_left 4 (show_int (t_year t));
          month2 = pad_left 2 (show_nat (t_month t));
          day2 = pad_left 2 (show_nat (t_day t));
          mon = shortMonths ! (t_month t - 1);
          minutes = nat (t_nsec t div 60000000000);
          hour = minutes div 60;
          hour12 = (if hour mod 12 = 0 then 12 else hour mod 12)
      in if layout = ''2006-01-02'' then year4 @ ''-'' @ month2 @ ''-'' @ day2
         else if layout = ''2006'' then year4
         else if layout = ''01'' then month2
         else if layout = ''02'' then day2
         else if layout = ''Jan 2'' then mon @ '' '' @ show_nat (t_day t)
         else if layout = ''Jan 2, 2006 at 3:04 PM'' then
           mon @ '' '' @ show_nat (t_day t) @ '', '' @ year4 @ '' at '' @ show_nat hour12 @ '':''
             @ pad_left 2 (show_nat (minutes mod 60)) @ (if hour < 12 then '' AM'' else '' PM'')
         else [])"

text \<open>
  The CSV writer quotes a field that holds a comma, a quote, a line feed or a carriage
  return, or that starts with a space. The reader takes the lines that are not empty,
  splits each with the quote rules, and then asks every record to have as many fields as
  the first: \<open>FieldsPerRecord\<close> is 0 in a reader made by \<open>csv.NewReader\<close>, which means
  exactly that.
\<close>

definition plain_csv_field :: "string \<Rightarrow> string" where
  "plain_csv_field field =
     (if CHR '','' \<in> set field \<or> dquote \<in> set field \<or> newline \<in> set field
         \<or> CHR 0x0D \<in> set field \<or> (field \<noteq> [] \<and> hd field = CHR '' '') then
        [dquote] @ concat (map (\<lambda>c. if c = dquote then [dquote, dquote] else [c]) field) @ [dquote]
      else field)"

definition plain_csv_Write :: "string list list \<Rightarrow> string" where
  "plain_csv_Write records =
     concat (map (\<lambda>record. join_with '','' (map plain_csv_field record) @ [newline]) records)"

fun field_count_error :: "nat \<Rightarrow> nat \<Rightarrow> string list list \<Rightarrow> string option" where
  "field_count_error n line [] = None"
| "field_count_error n line (record # rest) =
     (if length record \<noteq> n then
        Some (''record on line '' @ show_nat line @ '': wrong number of fields'')
      else field_count_error n (line + 1) rest)"

definition plain_csv_ReadAll :: "string \<Rightarrow> string + string list list" where
  "plain_csv_ReadAll content =
     (let records = map parseCSVLine (filter (\<lambda>line. line \<noteq> []) (split_on newline content))
      in case records of
           [] \<Rightarrow> Inr []
         | first # rest \<Rightarrow>
             (case field_count_error (length first) 2 rest of
                Some err \<Rightarrow> Inl err
              | None \<Rightarrow> Inr records))"

definition golib_plain :: golib where
  "golib_plain =
     \<lparr>time_Format = plain_time_Format, time_Parse = plain_time_Parse,
      ParseFloat = plain_ParseFloat, Sprintf_2f = plain_Sprintf_2f, Sprintf_0f = plain_Sprintf_0f,
      csv_Write = plain_csv_Write, csv_ReadAll = plain_csv_ReadAll,
      json_Unmarshal = (\<lambda>data. None), json_MarshalIndent = (\<lambda>cache. Inr ''{}'')\<rparr>"

definition plain_newDate :: "int \<Rightarrow> int \<Rightarrow> int \<Rightarrow> jsDate" where
  "plain_newDate y m d = \<lparr>getFullYear = y, getMonth = m, getDate = d, getHours = 0, getMinutes = 0\<rparr>"

definition plain_newDateOfString :: "string \<Rightarrow> jsDate option" where
  "plain_newDateOfString s =
     (if matches_iso_date (take 10 s) then
        Some (plain_newDate (parseInt (take 4 s)) (parseInt (take 2 (drop 5 s)) - 1)
                (parseInt (take 2 (drop 8 s))))
      else None)"

definition jslib_plain :: jslib where
  "jslib_plain =
     \<lparr>toFixed2 = plain_toFixed2, roundString = plain_roundString, parseFloat = plain_parseFloat,
      newDate = plain_newDate, newDateOfString = plain_newDateOfString,
      JSON_parse = (\<lambda>text. None), JSON_stringify = (\<lambda>cache. ''{}'')\<rparr>"

text \<open>A clock that starts at a given reading and moves on by one at every call.\<close>

definition clock_from :: "int \<Rightarrow> nat \<Rightarrow> int" where
  "clock_from start k = start + int k"

section \<open>Sequences of refreshes\<close>

text \<open>
  A run of \<open>RefreshRate\<close> calls, each with the outcome of its fetch, its clock reading (for
  \<open>refreshRate\<close>: the ISO text of the clock reading) and the fault of its save.
\<close>

fun Converter_refreshes ::
  "golib \<Rightarrow> Converter \<times> files \<Rightarrow> ((string + float64) \<times> Time \<times> os_fault option) list
     \<Rightarrow> Converter \<times> files" where
  "Converter_refreshes L (c, fs) [] = (c, fs)"
| "Converter_refreshes L (c, fs) ((fetched, now, fault) # rest) =
     (case Converter_RefreshRate L fs c fetched now fault of
        (err, c', fs') \<Rightarrow> Converter_refreshes L (c', fs') rest)"

fun CurrencyConverter_refreshes ::
  "jslib \<Rightarrow> CurrencyConverter \<times> files \<Rightarrow> ((string + float64) \<times> string \<times> string option) list
     \<Rightarrow> CurrencyConverter \<times> files" where
  "CurrencyConverter_refreshes J (c, fs) [] = (c, fs)"
| "CurrencyConverter_refreshes J (c, fs) ((fetched, nowISO, fault) # rest) =
     (case CurrencyConverter_refreshRate J fs c fetched nowISO fault of
        (err, c', fs') \<Rightarrow> CurrencyConverter_refreshes J (c', fs') rest)"

section \<open>Example data\<close>

text \<open>
  The day of the end-to-end scenario: January 15, 2025, with the entries Coffee and Lunch
  and one hour of screen time.
\<close>

definition date_2025_01_15 :: Time where
  "date_2025_01_15 = \<lparr>t_year = 2025, t_month = 1, t_day = 15, t_nsec = 0\<rparr>"

definition coffee :: Entry where
  "coffee = \<lparr>E_ID = ''1000-Coffee'', E_Date = date_2025_01_15, E_Description = ''Coffee'',
             E_CAD = Finite (9 / 2), E_IDR = Finite 53100, E_ScreenTime = ''1h00m''\<rparr>"

definition lunch :: Entry where
  "lunch = \<lparr>E_ID = ''2000-Lunch'', E_Date = date_2025_01_15, E_Description = ''Lunch'',
            E_CAD = Finite 12, E_IDR = Finite 141600, E_ScreenTime = ''1h00m''\<rparr>"

definition js_2025_01_15 :: jsDate where
  "js_2025_01_15 = \<lparr>getFullYear = 2025, getMonth = 0, getDate = 15, getHours = 0, getMinutes = 0\<rparr>"

definition ts_coffee :: tsEntry where
  "ts_coffee = \<lparr>e_id = ''1000-Coffee'', e_date = js_2025_01_15, e_description = ''Coffee'',
                e_cad = Finite (9 / 2), e_idr = Finite 53100, e_screenTime = ''1h00m''\<rparr>"

definition ts_lunch :: tsEntry where
  "ts_lunch = \<lparr>e_id = ''2000-Lunch'', e_date = js_2025_01_15, e_description = ''Lunch'',
               e_cad = Finite 12, e_idr = Finite 141600, e_screenTime = ''1h00m''\<rparr>"

definition screen_time_action :: "string \<Rightarrow> UndoAction" where
  "screen_time_action new =
     \<lparr>A_Type = ActionSetScreenTime, A_Date = date_2025_01_15, A_Entry = None, A_OldEntry = None,
      A_ScreenTime = new, A_OldScreenTime = [],
      A_Description = ''Changed screen time to '' @ [CHR 0x27] @ new @ [CHR 0x27]\<rparr>"

definition ts_screen_time_action :: "string \<Rightarrow> tsUndoAction" where
  "ts_screen_time_action new =
     \<lparr>a_type = SetScreenTime, a_date = js_2025_01_15, a_entry = None, a_oldEntry = None,
      a_screenTime = Some new, a_oldScreenTime = Some [], a_journal = None, a_oldJournal = None,
      a_description = ''Changed screen time to '' @ [CHR 0x27] @ new @ [CHR 0x27]\<rparr>"

text \<open>
  The example day in both implementations, the files after saving it into an empty data
  directory, and the world of a TypeScript session that has seen nothing yet.
\<close>

definition example_Day :: Day where
  "example_Day = \<lparr>D_Date = date_2025_01_15, D_Entries = [coffee, lunch],
                   D_ScreenTime = ''1h00m'', D_Journal = ''A quiet day.''\<rparr>"

definition example_files :: files where
  "example_files = CSVManager_SaveDay golib_plain DataDir Map.empty example_Day"

definition example_day :: tsDay where
  "example_day = \<lparr>d_date = js_2025_01_15, d_entries = [ts_coffee, ts_lunch],
                   d_screenTime = ''1h00m'', d_journal = ''A quiet day.''\<rparr>"

definition example_ts_files :: files where
  "example_ts_files = CSVManager_saveDay jslib_plain DATA_DIR Map.empty example_day"

definition example_world :: world where
  "example_world = \<lparr>w_files = example_ts_files, w_heap = [], w_dayCache = Map.empty\<rparr>"

text \<open>
  What the Go \<open>LoadDay\<close> returns for the example files when the clock starts at 5000, and a
  day that holds the coffee alone and was never saved.
\<close>

definition example_loaded :: Day where
  "example_loaded =
     \<lparr>D_Date = date_2025_01_15,
      D_Entries = [coffee\<lparr>E_ID := ''5000-Coffee''\<rparr>, lunch\<lparr>E_ID := ''5001-Lunch''\<rparr>],
      D_ScreenTime = ''1h00m'', D_Journal = ''A quiet day.''\<rparr>"


definition example_loaded_world :: world where
  "example_loaded_world =
     \<lparr>w_files = example_ts_files, w_heap = [example_day],
      w_dayCache = [LedgerService_getCacheKey js_2025_01_15 \<mapsto> 0]\<rparr>"

text \<open>
  A day file whose second line has two fields only: the header, a short row, a good row.
\<close>

definition short_row_text :: string where
  "short_row_text =
     ''date,description,cad,idr,screen_time'' @ [newline]
     @ ''2025-01-15,Coffee'' @ [newline]
     @ ''2025-01-15,Lunch,12.00,141600,1h00m'' @ [newline]"

definition short_row_files :: files where
  "short_row_files = [''ledger-data/2025/01/15/data.csv'' \<mapsto> short_row_text]"

text \<open>The same file with a date that is none and amounts that are no numbers.\<close>

definition bad_cells_text :: string where
  "bad_cells_text =
     ''date,description,cad,idr,screen_time'' @ [newline]
     @ ''yesterday,Coffee,4.50,53100,1h00m'' @ [newline]
     @ ''2025-01-15,Lunch,twelve,n/a,1h00m'' @ [newline]"

definition bad_cells_files :: files where
  "bad_cells_files = [''ledger-data/2025/01/15/data.csv'' \<mapsto> bad_cells_text]"



section \<open>What the round trip compares\<close>



text \<open>The id \<open>NewEntry\<close> and \<open>createEntry\<close> make from a clock reading and a description.\<close>

definition fresh_id :: "int \<Rightarrow> string \<Rightarrow> string" where
  "fresh_id now description = show_int now @ ''-'' @ take (min 8 (length description)) description"





section \<open>Well-formed worlds\<close>

text \<open>Every reference in the day cache points at a Day object of the store.\<close>

definition cache_ok :: "world \<Rightarrow> bool" where
  "cache_ok w = (\<forall>key ref. w_dayCache w key = Some ref \<longrightarrow> ref < length (w_heap w))"

section \<open>The undo stack is bounded\<close>

lemma Push_length:
  "length (actions (UndoStack_Push us a)) =
     (if length (actions us) + 1 > maxSize us then length (actions us) else length (actions us) + 1)"
  by (cases "actions us") (simp_all add: UndoStack_Push_def Let_def)

lemma push_length:
  "length (UndoStack_push acts a) =
     (if length acts + 1 > MAX_STACK_SIZE then length acts else length acts + 1)"
  by (cases acts) (simp_all add: UndoStack_push_def Let_def)

lemma Push_maxSize: "maxSize (UndoStack_Push us a) = maxSize us"
  by (simp add: UndoStack_Push_def Let_def)

lemma foldl_Push_maxSize: "maxSize (foldl UndoStack_Push us as) = maxSize us"
  by (induction as arbitrary: us) (simp_all add: Push_maxSize)

lemma foldl_Push_small:
  "length (actions us) + length as \<le> maxSize us \<Longrightarrow>
   actions (foldl UndoStack_Push us as) = actions us @ as"
proof (induction as arbitrary: us)
  case Nil
  then show ?case by simp
next
  case (Cons a as)
  have step: "actions (UndoStack_Push us a) = actions us @ [a]"
    using Cons.prems by (simp add: UndoStack_Push_def Let_def)
  have "length (actions (UndoStack_Push us a)) + length as \<le> maxSize (UndoStack_Push us a)"
    using Cons.prems by (simp add: step Push_maxSize)
  from Cons.IH [OF this] show ?case by (simp add: step)
qed

lemma foldl_push_small:
  "length acts + length as \<le> MAX_STACK_SIZE \<Longrightarrow> foldl UndoStack_push acts as = acts @ as"
proof (induction as arbitrary: acts)
  case Nil
  then show ?case by simp
next
  case (Cons a as)
  have step: "UndoStack_push acts a = acts @ [a]"
    using Cons.prems by (simp add: UndoStack_push_def Let_def)
  have "length (UndoStack_push acts a) + length as \<le> MAX_STACK_SIZE"
    using Cons.prems by (simp add: step)
  from Cons.IH [OF this] show ?case by (simp add: step)
qed

text \<open>
  C5. The stack never holds more than 100 actions: a push onto a stack of at most 100 leaves
  at most 100, in the Go \<open>UndoStack.Push\<close> (whose \<open>maxSize\<close> is the 100 set by
  \<open>NewUndoStack\<close>) and in the TypeScript \<open>UndoStack.push\<close>. Pushing 101 actions onto a new
  stack leaves exactly 100, and they are the last 100 pushed: the one dropped is the first.
\<close>

theorem undo_stack_bound:
  "(maxSize us = 100 \<and> UndoStack_Size us \<le> 100 \<longrightarrow>
      UndoStack_Size (UndoStack_Push us a) \<le> 100 \<and> maxSize (UndoStack_Push us a) = 100)
   \<and> (length acts \<le> 100 \<longrightarrow> length (UndoStack_push acts b) \<le> 100)
   \<and> (length as = 101 \<longrightarrow>
        actions (foldl UndoStack_Push NewUndoStack as) = tl as
        \<and> UndoStack_Size (foldl UndoStack_Push NewUndoStack as) = 100)
   \<and> (length bs = 101 \<longrightarrow>
        foldl UndoStack_push [] bs = tl bs \<and> length (foldl UndoStack_push [] bs) = 100)"
proof (intro conjI impI)
  assume "maxSize us = 100 \<and> UndoStack_Size us \<le> 100"
  then show "UndoStack_Size (UndoStack_Push us a) \<le> 100"
    by (simp add: UndoStack_Size_def Push_length)
next
  assume "maxSize us = 100 \<and> UndoStack_Size us \<le> 100"
  then show "maxSize (UndoStack_Push us a) = 100"
    by (simp add: Push_maxSize)
next
  assume "length acts \<le> 100"
  then show "length (UndoStack_push acts b) \<le> 100"
    by (simp add: push_length MAX_STACK_SIZE_def)
next
  assume len: "length as = 101"
  then obtain front x where split: "as = front @ [x]" and lf: "length front = 100"
    by (cases as rule: rev_cases) auto
  have "actions (foldl UndoStack_Push NewUndoStack front) = front"
    using foldl_Push_small [of NewUndoStack front] lf by (simp add: NewUndoStack_def)
  moreover have "maxSize (foldl UndoStack_Push NewUndoStack front) = 100"
    by (simp add: foldl_Push_maxSize NewUndoStack_def)
  ultimately have "actions (foldl UndoStack_Push NewUndoStack as) = drop 1 (front @ [x])"
    using lf by (simp add: split UndoStack_Push_def Let_def del: drop_append)
  moreover have "front \<noteq> []"
    using lf by auto
  ultimately show res: "actions (foldl UndoStack_Push NewUndoStack as) = tl as"
    using lf by (simp add: split drop_Suc)
  show "UndoStack_Size (foldl UndoStack_Push NewUndoStack as) = 100"
    using len by (simp add: UndoStack_Size_def res)
next
  assume len: "length bs = 101"
  then obtain front x where split: "bs = front @ [x]" and lf: "length front = 100"
    by (cases bs rule: rev_cases) auto
  have "foldl UndoStack_push [] front = front"
    using foldl_push_small [of "[]" front] lf by (simp add: MAX_STACK_SIZE_def)
  then show res: "foldl UndoStack_push [] bs = tl bs"
    using lf by (simp add: split UndoStack_push_def Let_def MAX_STACK_SIZE_def del: tl_append2)
  show "length (foldl UndoStack_push [] bs) = 100"
    using len by (simp add: res)
qed

theorem undo_stack_bound_witness:
  "UndoStack_Size (UndoStack_Push NewUndoStack (screen_time_action ''1h'')) \<le> 100
   \<and> length (UndoStack_push [] (ts_screen_time_action ''1h'')) \<le> 100
   \<and> actions (foldl UndoStack_Push NewUndoStack
         (screen_time_action ''1h'' # replicate 100 (screen_time_action ''2h'')))
       = replicate 100 (screen_time_action ''2h'')
   \<and> foldl UndoStack_push []
         (ts_screen_time_action ''1h'' # replicate 100 (ts_screen_time_action ''2h''))
       = replicate 100 (ts_screen_time_action ''2h'')"
  using undo_stack_bound [of NewUndoStack "screen_time_action ''1h''" "[]"
      "ts_screen_time_action ''1h''"
      "screen_time_action ''1h'' # replicate 100 (screen_time_action ''2h'')"
      "ts_screen_time_action ''1h'' # replicate 100 (ts_screen_time_action ''2h'')"]
  by (simp add: NewUndoStack_def UndoStack_Size_def)

section \<open>Conversion at a zero rate\<close>

text \<open>Without the guard the quotient by a zero rate is never the number 0.\<close>

lemma fdiv_by_zero: "fdiv idr (Finite 0) \<noteq> Finite 0"
  by (cases idr) auto

text \<open>
  C8. If the cached rate is zero, \<open>IDRToCAD\<close> (Go) and \<open>idrToCAD\<close> (TypeScript) return 0
  for every amount, whatever it is: a finite number, an infinity or NaN.
\<close>

theorem idr_to_cad_zero_rate:
  "(R_CADToIDR (C_cache c) = Finite 0 \<longrightarrow> Converter_IDRToCAD c idr = Finite 0)
   \<and> (cad_to_idr (cc_cache t) = Finite 0 \<longrightarrow> CurrencyConverter_idrToCAD t idr' = Finite 0)"
  by (simp add: Converter_IDRToCAD_def CurrencyConverter_idrToCAD_def)

theorem idr_to_cad_zero_rate_witness:
  "Converter_IDRToCAD
     \<lparr>C_cache = \<lparr>R_CADToIDR = Finite 0, R_LastUpdated = zero_Time\<rparr>, C_cacheDir = ''ledger-data'',
      C_offline = False, C_lastErr = None\<rparr> (Finite 53100) = Finite 0
   \<and> CurrencyConverter_idrToCAD
     \<lparr>cc_cacheDir = ''ledger-data'', cc_cache = \<lparr>cad_to_idr = Finite 0, last_updated = []\<rparr>,
      cc_offline = False, cc_lastError = None\<rparr> NaN = Finite 0"
  using idr_to_cad_zero_rate [of
      "\<lparr>C_cache = \<lparr>R_CADToIDR = Finite 0, R_LastUpdated = zero_Time\<rparr>, C_cacheDir = ''ledger-data'',
        C_offline = False, C_lastErr = None\<rparr>" "Finite 53100"
      "\<lparr>cc_cacheDir = ''ledger-data'', cc_cache = \<lparr>cad_to_idr = Finite 0, last_updated = []\<rparr>,
        cc_offline = False, cc_lastError = None\<rparr>" NaN]
  by simp

section \<open>A converter without a rate cache\<close>

lemma NewConverter_missing:
  "fs (path_join cacheDir CacheFileName) = None \<Longrightarrow>
   NewConverter L fs cacheDir
     = \<lparr>C_cache = \<lparr>R_CADToIDR = Finite 11800, R_LastUpdated = zero_Time\<rparr>,
        C_cacheDir = cacheDir, C_offline = False, C_lastErr = None\<rparr>"
  by (simp add: NewConverter_def Converter_loadCache_def Converter_getCachePath_def
      DefaultCADToIDR_def)

lemma constructor_missing:
  "fs (path_join cacheDir CACHE_FILE_NAME) = None \<Longrightarrow>
   CurrencyConverter_constructor J fs cacheDir
     = \<lparr>cc_cacheDir = cacheDir, cc_cache = \<lparr>cad_to_idr = Finite 11800, last_updated = []\<rparr>,
        cc_offline = False, cc_lastError = None\<rparr>"
  by (simp add: CurrencyConverter_constructor_def CurrencyConverter_loadCacheSync_def
      CurrencyConverter_getCachePath_def DEFAULT_CAD_TO_IDR_def)

text \<open>
  With any library: constructed without a cache file the converter is not offline, so the
  last branch of \<open>GetStatusMessage\<close> (\<open>getStatusMessage\<close>) runs. That branch does not look at
  the timestamp; it formats the zero time in Go and the date of the empty text in
  TypeScript.
\<close>

lemma GetStatusMessage_missing_cache:
  "fs (path_join cacheDir CacheFileName) = None \<Longrightarrow>
   Converter_GetStatusMessage L (NewConverter L fs cacheDir)
     = ''Rate: 1 CAD = '' @ Sprintf_0f L (Finite 11800) @ '' IDR (updated ''
         @ time_Format L ''Jan 2'' zero_Time @ '')''"
  by (simp add: NewConverter_missing Converter_GetStatusMessage_def)

lemma getStatusMessage_missing_cache:
  "fs (path_join cacheDir CACHE_FILE_NAME) = None \<Longrightarrow>
   CurrencyConverter_getStatusMessage J (CurrencyConverter_constructor J fs cacheDir)
     = ''Rate: 1 CAD = '' @ roundString J (Finite 11800) @ '' IDR (updated ''
         @ template_month (newDateOfString J []) @ '' '' @ template_day (newDateOfString J [])
         @ '')''"
  by (simp add: constructor_missing CurrencyConverter_getStatusMessage_def Let_def)

text \<open>
  The rate of such a converter stays the default while the fetches fail. A refresh whose
  fetch succeeded overwrites the cache before it saves: when the save fails the call
  returns an error (throws) and the rate is the fetched one all the same.
\<close>

lemma failed_fetches_keep_cache:
  "\<forall>outcome \<in> set outcomes. isl (fst outcome) \<Longrightarrow>
   C_cache (fst (Converter_refreshes L (c, fs) outcomes)) = C_cache c"
proof (induction outcomes arbitrary: c fs)
  case Nil
  then show ?case by simp
next
  case (Cons outcome outcomes)
  obtain fetched now fault where o: "outcome = (fetched, now, fault)"
    by (cases outcome)
  from Cons.prems o obtain err where f: "fetched = Inl err"
    by (cases fetched) auto
  have "C_cache (fst (Converter_refreshes L (c\<lparr>C_offline := True, C_lastErr := Some err\<rparr>, fs) outcomes))
          = C_cache (c\<lparr>C_offline := True, C_lastErr := Some err\<rparr>)"
    using Cons.IH Cons.prems by simp
  then show ?case
    by (simp add: o f Converter_RefreshRate_def)
qed

lemma failed_fetches_keep_ts_cache:
  "\<forall>outcome \<in> set outcomes. isl (fst outcome) \<Longrightarrow>
   cc_cache (fst (CurrencyConverter_refreshes J (c, fs) outcomes)) = cc_cache c"
proof (induction outcomes arbitrary: c fs)
  case Nil
  then show ?case by simp
next
  case (Cons outcome outcomes)
  obtain fetched nowISO fault where o: "outcome = (fetched, nowISO, fault)"
    by (cases outcome)
  from Cons.prems o obtain err where f: "fetched = Inl err"
    by (cases fetched) auto
  have "cc_cache (fst (CurrencyConverter_refreshes J
              (c\<lparr>cc_offline := True, cc_lastError := Some err\<rparr>, fs) outcomes))
          = cc_cache (c\<lparr>cc_offline := True, cc_lastError := Some err\<rparr>)"
    using Cons.IH Cons.prems by simp
  then show ?case
    by (simp add: o f CurrencyConverter_refreshRate_def)
qed

lemma RefreshRate_failed_save:
  "json_MarshalIndent L \<lparr>R_CADToIDR = rate, R_LastUpdated = now\<rparr> = Inr data \<Longrightarrow>
   Converter_RefreshRate L fs c (Inr rate) now (Some (WriteFile_fails err))
     = (Some (''failed to write cache: '' @ err),
        c\<lparr>C_cache := \<lparr>R_CADToIDR = rate, R_LastUpdated = now\<rparr>, C_offline := False,
          C_lastErr := None\<rparr>,
        fs)"
  by (simp add: Converter_RefreshRate_def Converter_saveCache_def Let_def)

lemma refreshRate_failed_save:
  "CurrencyConverter_refreshRate J fs c (Inr rate) nowISO (Some err)
     = (Some err,
        c\<lparr>cc_cache := \<lparr>cad_to_idr = rate, last_updated = nowISO\<rparr>, cc_offline := True,
          cc_lastError := Some err\<rparr>,
        fs)"
  by (simp add: CurrencyConverter_refreshRate_def CurrencyConverter_saveCache_def Let_def)

lemma RefreshRate_saved:
  "json_MarshalIndent L \<lparr>R_CADToIDR = rate, R_LastUpdated = now\<rparr> = Inr data \<Longrightarrow>
   Converter_RefreshRate L fs c (Inr rate) now None
     = (None,
        c\<lparr>C_cache := \<lparr>R_CADToIDR = rate, R_LastUpdated = now\<rparr>, C_offline := False,
          C_lastErr := None\<rparr>,
        fs(path_join (C_cacheDir c) CacheFileName \<mapsto> data))"
  by (simp add: Converter_RefreshRate_def Converter_saveCache_def Converter_getCachePath_def Let_def)

lemma refreshRate_saved:
  "CurrencyConverter_refreshRate J fs c (Inr rate) nowISO None
     = (None,
        c\<lparr>cc_cache := \<lparr>cad_to_idr = rate, last_updated = nowISO\<rparr>, cc_offline := False,
          cc_lastError := None\<rparr>,
        fs(path_join (cc_cacheDir c) CACHE_FILE_NAME
             \<mapsto> JSON_stringify J \<lparr>cad_to_idr = rate, last_updated = nowISO\<rparr>))"
  by (simp add: CurrencyConverter_refreshRate_def CurrencyConverter_saveCache_def
      CurrencyConverter_getCachePath_def Let_def)


section \<open>The day cache of the ledger service\<close>

lemma getDay_hit:
  "w_dayCache w (LedgerService_getCacheKey date) = Some cached \<Longrightarrow>
   LedgerService_getDay J dataDir w clk date = (cached, w)"
  by (simp add: LedgerService_getDay_def)

lemma getDay_miss:
  "w_dayCache w (LedgerService_getCacheKey date) = None \<Longrightarrow>
   LedgerService_getDay J dataDir w clk date =
     (length (w_heap w),
      w\<lparr>w_heap := w_heap w @ [CSVManager_loadDay J dataDir (w_files w) clk date],
        w_dayCache := (w_dayCache w)(LedgerService_getCacheKey date \<mapsto> length (w_heap w))\<rparr>)"
  by (simp add: LedgerService_getDay_def Let_def)

lemma getDay_caches:
  "w_dayCache (snd (LedgerService_getDay J dataDir w clk date)) (LedgerService_getCacheKey date)
     = Some (fst (LedgerService_getDay J dataDir w clk date))"
  by (cases "w_dayCache w (LedgerService_getCacheKey date)") (simp_all add: getDay_hit getDay_miss)

text \<open>
  The Go service reads the files at every call. Two calls for the same date over the same
  files give days whose entries carry different ids, made at the two loads; and once the
  files are gone the next call returns an empty day.
\<close>

lemma GetDay_is_LoadDay:
  "Service_GetDay L dataDir fs clk date = CSVManager_LoadDay L dataDir fs clk date"
  by (simp add: Service_GetDay_def)

theorem go_service_rereads_counterexample:
  "Service_GetDay golib_plain DataDir example_files (clock_from 5000) date_2025_01_15
     \<noteq> Service_GetDay golib_plain DataDir example_files (clock_from 6000) date_2025_01_15
   \<and> Service_GetDay golib_plain DataDir example_files (clock_from 5000) date_2025_01_15
     \<noteq> Service_GetDay golib_plain DataDir Map.empty (clock_from 5000) date_2025_01_15"
  by code_simp

text \<open>
  C2, amended. In the TypeScript \<open>LedgerService\<close>, \<open>getDay\<close> returns the cached reference
  when the cache holds one under the key of the date, and leaves the world as it is;
  otherwise it loads the day from the day store, puts the new object under the key and
  returns its reference. A second call for the same date returns the same reference and
  changes nothing, whatever the files and the clock have become in between: it reads no
  file. The Go \<open>Service.GetDay\<close> has no cache: it is \<open>LoadDay\<close>.
\<close>

theorem getDay_cache:
  "(w_dayCache w (LedgerService_getCacheKey date) = Some cached \<longrightarrow>
      LedgerService_getDay J dataDir w clk date = (cached, w))
   \<and> (w_dayCache w (LedgerService_getCacheKey date) = None \<longrightarrow>
      LedgerService_getDay J dataDir w clk date =
        (length (w_heap w),
         w\<lparr>w_heap := w_heap w @ [CSVManager_loadDay J dataDir (w_files w) clk date],
           w_dayCache := (w_dayCache w)(LedgerService_getCacheKey date \<mapsto> length (w_heap w))\<rparr>))
   \<and> (LedgerService_getDay J dataDir w clk date = (ref, w1) \<longrightarrow>
      LedgerService_getDay J dataDir (w1\<lparr>w_files := fs'\<rparr>) clk' date = (ref, w1\<lparr>w_files := fs'\<rparr>))
   \<and> Service_GetDay L goDir fs goClk goDate = CSVManager_LoadDay L goDir fs goClk goDate"
proof (intro conjI impI)
  assume "w_dayCache w (LedgerService_getCacheKey date) = Some cached"
  then show "LedgerService_getDay J dataDir w clk date = (cached, w)"
    by (rule getDay_hit)
next
  assume "w_dayCache w (LedgerService_getCacheKey date) = None"
  then show "LedgerService_getDay J dataDir w clk date =
        (length (w_heap w),
         w\<lparr>w_heap := w_heap w @ [CSVManager_loadDay J dataDir (w_files w) clk date],
           w_dayCache := (w_dayCache w)(LedgerService_getCacheKey date \<mapsto> length (w_heap w))\<rparr>)"
    by (rule getDay_miss)
next
  assume first: "LedgerService_getDay J dataDir w clk date = (ref, w1)"
  have "w_dayCache w1 (LedgerService_getCacheKey date) = Some ref"
    using getDay_caches [of J dataDir w clk date] by (simp add: first)
  then have "w_dayCache (w1\<lparr>w_files := fs'\<rparr>) (LedgerService_getCacheKey date) = Some ref"
    by simp
  then show "LedgerService_getDay J dataDir (w1\<lparr>w_files := fs'\<rparr>) clk' date
               = (ref, w1\<lparr>w_files := fs'\<rparr>)"
    by (rule getDay_hit)
next
  show "Service_GetDay L goDir fs goClk goDate = CSVManager_LoadDay L goDir fs goClk goDate"
    by (rule GetDay_is_LoadDay)
qed

text \<open>
  The witness: the first call in a new session loads the example day into a new object, and
  the second call, made after the files were wiped and with a later clock, returns that
  object.
\<close>

theorem getDay_cache_witness:
  "LedgerService_getDay jslib_plain DATA_DIR example_world (clock_from 5000) js_2025_01_15
     = (0, example_world
           \<lparr>w_heap := [CSVManager_loadDay jslib_plain DATA_DIR example_ts_files (clock_from 5000)
                         js_2025_01_15],
             w_dayCache := [LedgerService_getCacheKey js_2025_01_15 \<mapsto> 0]\<rparr>)
   \<and> LedgerService_getDay jslib_plain DATA_DIR
        ((snd (LedgerService_getDay jslib_plain DATA_DIR example_world (clock_from 5000)
                 js_2025_01_15))\<lparr>w_files := Map.empty\<rparr>) (clock_from 6000) js_2025_01_15
     = (0, (snd (LedgerService_getDay jslib_plain DATA_DIR example_world (clock_from 5000)
                  js_2025_01_15))\<lparr>w_files := Map.empty\<rparr>)"
proof -
  have miss: "w_dayCache example_world (LedgerService_getCacheKey js_2025_01_15) = None"
    by (simp add: example_world_def)
  note c = getDay_cache [where w = example_world and date = js_2025_01_15 and J = jslib_plain
      and dataDir = DATA_DIR and clk = "clock_from 5000" and ref = 0
      and ?w1.0 = "snd (LedgerService_getDay jslib_plain DATA_DIR example_world (clock_from 5000)
                     js_2025_01_15)"
      and fs' = Map.empty and clk' = "clock_from 6000"]
  from c miss have first:
    "LedgerService_getDay jslib_plain DATA_DIR example_world (clock_from 5000) js_2025_01_15
       = (0, example_world
             \<lparr>w_heap := [CSVManager_loadDay jslib_plain DATA_DIR example_ts_files (clock_from 5000)
                           js_2025_01_15],
               w_dayCache := [LedgerService_getCacheKey js_2025_01_15 \<mapsto> 0]\<rparr>)"
    by (simp add: example_world_def)
  then have "LedgerService_getDay jslib_plain DATA_DIR example_world (clock_from 5000) js_2025_01_15
       = (0, snd (LedgerService_getDay jslib_plain DATA_DIR example_world (clock_from 5000)
                    js_2025_01_15))"
    by simp
  with c first show ?thesis
    by blast
qed

section \<open>The kinds of undo action\<close>

lemma ActionType_UNIV:
  "(UNIV :: ActionType set) = {ActionAddEntry, ActionDeleteEntry, ActionEditEntry, ActionSetScreenTime}"
proof -
  have "x \<in> {ActionAddEntry, ActionDeleteEntry, ActionEditEntry, ActionSetScreenTime}"
    for x :: ActionType
    by (cases x) simp_all
  then show ?thesis by blast
qed

lemma tsActionType_UNIV:
  "(UNIV :: tsActionType set) = {AddEntry, DeleteEntry, EditEntry, SetScreenTime, SetJournal}"
proof -
  have "x \<in> {AddEntry, DeleteEntry, EditEntry, SetScreenTime, SetJournal}" for x :: tsActionType
    by (cases x) simp_all
  then show ?thesis by blast
qed

text \<open>C3 as stated fails in Go: \<open>ActionType\<close> has four values, and none is for the journal.\<close>

theorem go_action_types_counterexample:
  "card (UNIV :: ActionType set) \<noteq> 5"
  by (simp add: ActionType_UNIV)

lemma push_last: "last (UndoStack_push acts action) = action"
  by (cases acts) (simp_all add: UndoStack_push_def Let_def MAX_STACK_SIZE_def)

lemma push_nonempty: "UndoStack_push acts action \<noteq> []"
  by (cases acts) (simp_all add: UndoStack_push_def Let_def MAX_STACK_SIZE_def)

lemma pop_push:
  "UndoStack_pop (UndoStack_push acts action) = (Some action, butlast (UndoStack_push acts action))"
  by (simp add: UndoStack_pop_def push_nonempty push_last)

section \<open>Facts about the stacks, the store and the example\<close>

lemma example_loaded_eval:
  "Service_GetDay golib_plain DataDir example_files (clock_from 5000) date_2025_01_15 = Inr example_loaded"
  by code_simp

lemma cloneEntry_id: "cloneEntry e = e"
  by (simp add: cloneEntry_def)

lemma Entry_Clone_id: "Entry_Clone e = e"
  by (simp add: Entry_Clone_def)

lemma getDay_ok:
  assumes "cache_ok w" and "LedgerService_getDay J dataDir w clk date = (ref, w1)"
  shows "ref < length (w_heap w1) \<and> cache_ok w1"
proof (cases "w_dayCache w (LedgerService_getCacheKey date)")
  case None
  with assms show ?thesis
    by (auto simp: getDay_miss cache_ok_def less_Suc_eq split: if_splits)
next
  case (Some cached)
  with assms show ?thesis
    by (auto simp: getDay_hit cache_ok_def)
qed

lemma saveDay_heap: "w_heap (LedgerService_saveDay J dataDir w ref) = w_heap w"
  by (simp add: LedgerService_saveDay_def Let_def)



lemma Pop_top:
  assumes "actions stack \<noteq> []"
  shows "UndoStack_Pop stack = (Some (last (actions stack)), stack\<lparr>actions := butlast (actions stack)\<rparr>)"
  using assms by (simp add: UndoStack_Pop_def last_conv_nth butlast_conv_take)

lemma remove_first_absent: "\<forall>x \<in> set es. E_ID x \<noteq> i \<Longrightarrow> remove_first i es = es"
  by (induction es) simp_all

lemma splice_by_id_absent: "\<forall>x \<in> set es. e_id x \<noteq> i \<Longrightarrow> splice_by_id i es = es"
  by (induction es) simp_all

text \<open>
  C3, amended. The TypeScript \<open>ActionType\<close> has exactly the five members AddEntry,
  DeleteEntry, EditEntry, SetScreenTime and SetJournal; the undo manager has a recording
  operation for each, which puts an action of that kind on top of the stack; and the undo
  of a recorded journal change writes the old journal into the day object and touches
  nothing else of it. The Go \<open>ActionType\<close> has exactly four values: there is no journal
  action and no \<open>RecordSetJournal\<close>.
\<close>

theorem five_action_kinds:
  "(UNIV :: tsActionType set) = {AddEntry, DeleteEntry, EditEntry, SetScreenTime, SetJournal}
   \<and> card (UNIV :: tsActionType set) = 5
   \<and> a_type (last (UndoManager_recordAddEntry acts date entry)) = AddEntry
   \<and> a_type (last (UndoManager_recordDeleteEntry acts date entry)) = DeleteEntry
   \<and> a_type (last (UndoManager_recordEditEntry acts date oldEntry newEntry)) = EditEntry
   \<and> a_type (last (UndoManager_recordSetScreenTime acts date oldScreenTime newScreenTime))
       = SetScreenTime
   \<and> a_type (last (UndoManager_recordSetJournal acts date oldJournal newJournal)) = SetJournal
   \<and> (cache_ok w \<and> LedgerService_getDay J dataDir w clk date = (ref, w1) \<longrightarrow>
        (case UndoManager_undo J dataDir
                (UndoManager_recordSetJournal acts date oldJournal newJournal) w clk of
           (msg, acts', w', touched) \<Rightarrow>
             msg = Some ''Undo: Restored journal'' \<and> touched = Some ref
             \<and> w_heap w' ! ref = (w_heap w1 ! ref)\<lparr>d_journal := oldJournal\<rparr>
             \<and> d_journal (w_heap w' ! ref) = oldJournal))
   \<and> (UNIV :: ActionType set)
       = {ActionAddEntry, ActionDeleteEntry, ActionEditEntry, ActionSetScreenTime}
   \<and> card (UNIV :: ActionType set) = 4"
proof (intro conjI impI)
  show "(UNIV :: tsActionType set) = {AddEntry, DeleteEntry, EditEntry, SetScreenTime, SetJournal}"
    by (rule tsActionType_UNIV)
  show "card (UNIV :: tsActionType set) = 5"
    by (simp add: tsActionType_UNIV)
  show "a_type (last (UndoManager_recordAddEntry acts date entry)) = AddEntry"
    by (simp add: UndoManager_recordAddEntry_def UndoStack_pushAddEntry_def push_last)
  show "a_type (last (UndoManager_recordDeleteEntry acts date entry)) = DeleteEntry"
    by (simp add: UndoManager_recordDeleteEntry_def UndoStack_pushDeleteEntry_def push_last)
  show "a_type (last (UndoManager_recordEditEntry acts date oldEntry newEntry)) = EditEntry"
    by (simp add: UndoManager_recordEditEntry_def UndoStack_pushEditEntry_def push_last)
  show "a_type (last (UndoManager_recordSetScreenTime acts date oldScreenTime newScreenTime))
          = SetScreenTime"
    by (simp add: UndoManager_recordSetScreenTime_def UndoStack_pushSetScreenTime_def push_last)
  show "a_type (last (UndoManager_recordSetJournal acts date oldJournal newJournal)) = SetJournal"
    by (simp add: UndoManager_recordSetJournal_def UndoStack_pushSetJournal_def push_last)
  show "(UNIV :: ActionType set)
          = {ActionAddEntry, ActionDeleteEntry, ActionEditEntry, ActionSetScreenTime}"
    by (rule ActionType_UNIV)
  show "card (UNIV :: ActionType set) = 4"
    by (simp add: ActionType_UNIV)
next
  assume a: "cache_ok w \<and> LedgerService_getDay J dataDir w clk date = (ref, w1)"
  then have ref: "ref < length (w_heap w1)"
    using getDay_ok by blast
  show "case UndoManager_undo J dataDir
               (UndoManager_recordSetJournal acts date oldJournal newJournal) w clk of
          (msg, acts', w', touched) \<Rightarrow>
            msg = Some ''Undo: Restored journal'' \<and> touched = Some ref
            \<and> w_heap w' ! ref = (w_heap w1 ! ref)\<lparr>d_journal := oldJournal\<rparr>
            \<and> d_journal (w_heap w' ! ref) = oldJournal"
    using a ref
    by (simp add: UndoManager_undo_def UndoManager_recordSetJournal_def
        UndoStack_pushSetJournal_def pop_push saveDay_heap write_day_def)
qed

lemma example_loaded_world_ok: "cache_ok example_loaded_world"
  by (simp add: cache_ok_def example_loaded_world_def)

lemma example_loaded_world_hit:
  "LedgerService_getDay J dataDir example_loaded_world clk js_2025_01_15 = (0, example_loaded_world)"
  by (rule getDay_hit) (simp add: example_loaded_world_def)

text \<open>
  The witness: the journal of the cached example day goes back to the text recorded as old.
\<close>

theorem five_action_kinds_witness:
  "(case UndoManager_undo jslib_plain DATA_DIR
           (UndoManager_recordSetJournal [] js_2025_01_15 ''Before'' ''A quiet day.'')
           example_loaded_world (clock_from 5000) of
      (msg, acts', w', touched) \<Rightarrow>
        msg = Some ''Undo: Restored journal'' \<and> touched = Some 0
        \<and> d_journal (w_heap w' ! 0) = ''Before'')"
  using five_action_kinds [where w = example_loaded_world and J = jslib_plain
      and dataDir = DATA_DIR and clk = "clock_from 5000" and date = js_2025_01_15 and ref = 0
      and ?w1.0 = example_loaded_world and acts = "[]" and oldJournal = "''Before''"
      and newJournal = "''A quiet day.''"]
    example_loaded_world_ok
    example_loaded_world_hit [of jslib_plain DATA_DIR "clock_from 5000"]
  by (auto split: prod.splits)

section \<open>Undoing an add whose entry is gone\<close>

text \<open>
  C9. When the action on top of the stack records an added entry and the day the undo
  works on holds no entry with that id, the undo changes nothing in the day, returns no
  error, and returns the message of a successful removal. In Go the day is the one
  \<open>GetDay\<close> loads; in TypeScript it is the day object \<open>getDay\<close> returns, and no day object
  of the store changes.
\<close>

theorem undo_add_of_absent_entry:
  "(actions stack \<noteq> [] \<and> A_Type (last (actions stack)) = ActionAddEntry
      \<and> A_Entry (last (actions stack)) = Some e
      \<and> Service_GetDay L dataDir fs clk (A_Date (last (actions stack))) = Inr day
      \<and> (\<forall>x \<in> set (D_Entries day). E_ID x \<noteq> E_ID e)
    \<longrightarrow> UndoManager_Undo L dataDir stack fs clk =
          Some \<lparr>U_msg = ''Undo: Removed '' @ [CHR 0x27] @ truncate_str (E_Description e) 20
                          @ [CHR 0x27],
                U_err = None, U_stack = stack\<lparr>actions := butlast (actions stack)\<rparr>,
                U_files = Service_SaveDay L dataDir fs day, U_day = Some day\<rparr>)
   \<and> (acts \<noteq> [] \<and> a_type (last acts) = AddEntry \<and> a_entry (last acts) = Some e'
      \<and> LedgerService_getDay J tsDir w tsClk (a_date (last acts)) = (ref, w1)
      \<and> (\<forall>x \<in> set (d_entries (w_heap w1 ! ref)). e_id x \<noteq> e_id e')
    \<longrightarrow> (case UndoManager_undo J tsDir acts w tsClk of
           (msg, acts', w', touched) \<Rightarrow>
             msg = Some (''Undo: Removed '' @ [CHR 0x27] @ truncate_str (e_description e') 20
                          @ [CHR 0x27])
             \<and> acts' = butlast acts \<and> touched = Some ref \<and> w_heap w' = w_heap w1))"
proof (intro conjI impI)
  assume a: "actions stack \<noteq> [] \<and> A_Type (last (actions stack)) = ActionAddEntry
      \<and> A_Entry (last (actions stack)) = Some e
      \<and> Service_GetDay L dataDir fs clk (A_Date (last (actions stack))) = Inr day
      \<and> (\<forall>x \<in> set (D_Entries day). E_ID x \<noteq> E_ID e)"
  then have same: "snd (Day_RemoveEntry day (E_ID e)) = day"
    by (simp add: Day_RemoveEntry_def remove_first_absent)
  show "UndoManager_Undo L dataDir stack fs clk =
          Some \<lparr>U_msg = ''Undo: Removed '' @ [CHR 0x27] @ truncate_str (E_Description e) 20
                          @ [CHR 0x27],
                U_err = None, U_stack = stack\<lparr>actions := butlast (actions stack)\<rparr>,
                U_files = Service_SaveDay L dataDir fs day, U_day = Some day\<rparr>"
    using a by (simp add: UndoManager_Undo_def Pop_top same Let_def)
next
  assume a: "acts \<noteq> [] \<and> a_type (last acts) = AddEntry \<and> a_entry (last acts) = Some e'
      \<and> LedgerService_getDay J tsDir w tsClk (a_date (last acts)) = (ref, w1)
      \<and> (\<forall>x \<in> set (d_entries (w_heap w1 ! ref)). e_id x \<noteq> e_id e')"
  then have same: "splice_by_id (e_id e') (d_entries (w_heap w1 ! ref)) = d_entries (w_heap w1 ! ref)"
    by (simp add: splice_by_id_absent)
  show "case UndoManager_undo J tsDir acts w tsClk of
           (msg, acts', w', touched) \<Rightarrow>
             msg = Some (''Undo: Removed '' @ [CHR 0x27] @ truncate_str (e_description e') 20
                          @ [CHR 0x27])
             \<and> acts' = butlast acts \<and> touched = Some ref \<and> w_heap w' = w_heap w1"
    using a by (simp add: UndoManager_undo_def UndoStack_pop_def same saveDay_heap write_day_def)
qed

theorem undo_add_of_absent_entry_witness:
  "map_option U_msg (UndoManager_Undo golib_plain DataDir
       (UndoManager_RecordAddEntry NewUndoStack date_2025_01_15 coffee) example_files
       (clock_from 5000)) = Some (''Undo: Removed '' @ [CHR 0x27] @ ''Coffee'' @ [CHR 0x27])
   \<and> map_option U_err (UndoManager_Undo golib_plain DataDir
       (UndoManager_RecordAddEntry NewUndoStack date_2025_01_15 coffee) example_files
       (clock_from 5000)) = Some None
   \<and> map_option U_day (UndoManager_Undo golib_plain DataDir
       (UndoManager_RecordAddEntry NewUndoStack date_2025_01_15 coffee) example_files
       (clock_from 5000)) = Some (Some example_loaded)
   \<and> (case UndoManager_undo jslib_plain DATA_DIR
             (UndoManager_recordAddEntry [] js_2025_01_15 (ts_coffee\<lparr>e_id := ''3000-Coffee''\<rparr>))
             example_loaded_world (clock_from 5000) of
         (msg, acts', w', touched) \<Rightarrow>
           msg = Some (''Undo: Removed '' @ [CHR 0x27] @ ''Coffee'' @ [CHR 0x27]) \<and> acts' = [] \<and> touched = Some 0
           \<and> w_heap w' = [example_day])"
proof -
  let ?stack = "UndoManager_RecordAddEntry NewUndoStack date_2025_01_15 coffee"
  let ?acts = "UndoManager_recordAddEntry [] js_2025_01_15 (ts_coffee\<lparr>e_id := ''3000-Coffee''\<rparr>)"
  have stack: "actions ?stack =
      [\<lparr>A_Type = ActionAddEntry, A_Date = date_2025_01_15, A_Entry = Some coffee,
        A_OldEntry = None, A_ScreenTime = [], A_OldScreenTime = [],
        A_Description = ''Added '' @ [CHR 0x27] @ ''Coffee'' @ [CHR 0x27]\<rparr>]"
    by (simp add: UndoManager_RecordAddEntry_def UndoStack_PushAddEntry_def UndoStack_Push_def
        NewUndoStack_def Entry_Clone_id truncate_str_def coffee_def)
  have acts: "?acts =
      [\<lparr>a_type = AddEntry, a_date = js_2025_01_15,
        a_entry = Some (ts_coffee\<lparr>e_id := ''3000-Coffee''\<rparr>), a_oldEntry = None,
        a_screenTime = None, a_oldScreenTime = None, a_journal = None, a_oldJournal = None,
        a_description = ''Added '' @ [CHR 0x27] @ ''Coffee'' @ [CHR 0x27]\<rparr>]"
    by (simp add: UndoManager_recordAddEntry_def UndoStack_pushAddEntry_def UndoStack_push_def
        MAX_STACK_SIZE_def cloneEntry_id truncate_str_def ts_coffee_def)
  have go: "UndoManager_Undo golib_plain DataDir ?stack example_files (clock_from 5000) =
          Some \<lparr>U_msg = ''Undo: Removed '' @ [CHR 0x27] @ truncate_str (E_Description coffee) 20
                          @ [CHR 0x27],
                U_err = None, U_stack = ?stack\<lparr>actions := butlast (actions ?stack)\<rparr>,
                U_files = Service_SaveDay golib_plain DataDir example_files example_loaded,
                U_day = Some example_loaded\<rparr>"
  proof (rule undo_add_of_absent_entry [THEN conjunct1, rule_format])
    show "actions ?stack \<noteq> [] \<and> A_Type (last (actions ?stack)) = ActionAddEntry
      \<and> A_Entry (last (actions ?stack)) = Some coffee
      \<and> Service_GetDay golib_plain DataDir example_files (clock_from 5000)
            (A_Date (last (actions ?stack))) = Inr example_loaded
      \<and> (\<forall>x \<in> set (D_Entries example_loaded). E_ID x \<noteq> E_ID coffee)"
      by (simp add: stack example_loaded_eval) (simp add: example_loaded_def coffee_def lunch_def)
  qed
  have ts: "case UndoManager_undo jslib_plain DATA_DIR ?acts example_loaded_world (clock_from 5000) of
           (msg, acts', w', touched) \<Rightarrow>
             msg = Some (''Undo: Removed '' @ [CHR 0x27]
                          @ truncate_str (e_description (ts_coffee\<lparr>e_id := ''3000-Coffee''\<rparr>)) 20
                          @ [CHR 0x27])
             \<and> acts' = butlast ?acts \<and> touched = Some 0
             \<and> w_heap w' = w_heap example_loaded_world"
  proof (rule undo_add_of_absent_entry [THEN conjunct2, rule_format])
    show "?acts \<noteq> [] \<and> a_type (last ?acts) = AddEntry
      \<and> a_entry (last ?acts) = Some (ts_coffee\<lparr>e_id := ''3000-Coffee''\<rparr>)
      \<and> LedgerService_getDay jslib_plain DATA_DIR example_loaded_world (clock_from 5000)
            (a_date (last ?acts)) = (0, example_loaded_world)
      \<and> (\<forall>x \<in> set (d_entries (w_heap example_loaded_world ! 0)).
             e_id x \<noteq> e_id (ts_coffee\<lparr>e_id := ''3000-Coffee''\<rparr>))"
      by (simp add: acts example_loaded_world_hit)
        (simp add: example_loaded_world_def example_day_def ts_coffee_def ts_lunch_def)
  qed
  from go have g: "UndoManager_Undo golib_plain DataDir ?stack example_files (clock_from 5000) =
          Some \<lparr>U_msg = ''Undo: Removed '' @ [CHR 0x27] @ ''Coffee'' @ [CHR 0x27],
                U_err = None, U_stack = ?stack\<lparr>actions := butlast (actions ?stack)\<rparr>,
                U_files = Service_SaveDay golib_plain DataDir example_files example_loaded,
                U_day = Some example_loaded\<rparr>"
    by (simp add: truncate_str_def coffee_def)
  have bl: "butlast ?acts = []"
    by (simp add: acts)
  have d: "e_description (ts_coffee\<lparr>e_id := ''3000-Coffee''\<rparr>) = ''Coffee''"
    by (simp add: ts_coffee_def)
  from ts have t: "case UndoManager_undo jslib_plain DATA_DIR ?acts example_loaded_world (clock_from 5000) of
           (msg, acts', w', touched) \<Rightarrow>
             msg = Some (''Undo: Removed '' @ [CHR 0x27] @ ''Coffee'' @ [CHR 0x27]) \<and> acts' = [] \<and> touched = Some 0
             \<and> w_heap w' = [example_day]"
    by (simp add: bl d truncate_str_def example_loaded_world_def split: prod.splits)
  from g t show ?thesis
    by simp
qed

section \<open>Malformed rows\<close>

text \<open>
  After the CSV text is split into records, both loops treat a record alike: one with fewer
  than five fields or with a date that does not parse is passed over, and an amount that
  does not parse counts as 0.
\<close>

lemma loadDay_loop_short:
  "length (parseCSVLine line) < 5 \<Longrightarrow>
   loadDay_loop J clk k (line # rest) day = loadDay_loop J clk k rest day"
  by (simp add: Let_def)

lemma loadDay_loop_bad_date:
  "parseISODate J (parseCSVLine line ! 0) = None \<Longrightarrow>
   loadDay_loop J clk k (line # rest) day = loadDay_loop J clk k rest day"
  by (simp add: Let_def)

lemma LoadDay_loop_short:
  "length record < 5 \<Longrightarrow>
   LoadDay_loop L clk k (record # rest) day = LoadDay_loop L clk k rest day"
  by simp

lemma LoadDay_loop_bad_date:
  "time_Parse L DateFormat (record ! 0) = None \<Longrightarrow>
   LoadDay_loop L clk k (record # rest) day = LoadDay_loop L clk k rest day"
  by simp

text \<open>
  The TypeScript \<open>loadDay\<close> on the file with the short row loads the good row, and on the
  file with the bad cells it drops the first row and loads the second with both amounts 0.
  The Go \<open>LoadDay\<close> does the same on the bad cells.
\<close>

lemma ts_short_row_loads_rest:
  "CSVManager_loadDay jslib_plain DATA_DIR short_row_files (clock_from 5000) js_2025_01_15
     = \<lparr>d_date = js_2025_01_15,
        d_entries = [ts_lunch\<lparr>e_id := ''5000-Lunch''\<rparr>],
        d_screenTime = ''1h00m'', d_journal = []\<rparr>"
  by code_simp

lemma ts_bad_cells_load:
  "CSVManager_loadDay jslib_plain DATA_DIR bad_cells_files (clock_from 5000) js_2025_01_15
     = \<lparr>d_date = js_2025_01_15,
        d_entries = [ts_lunch\<lparr>e_id := ''5000-Lunch'', e_cad := Finite 0, e_idr := Finite 0\<rparr>],
        d_screenTime = ''1h00m'', d_journal = []\<rparr>"
  by code_simp

lemma go_bad_cells_load:
  "CSVManager_LoadDay golib_plain DataDir bad_cells_files (clock_from 5000) date_2025_01_15
     = Inr \<lparr>D_Date = date_2025_01_15,
            D_Entries = [lunch\<lparr>E_ID := ''5000-Lunch'', E_CAD := Finite 0, E_IDR := Finite 0\<rparr>],
            D_ScreenTime = ''1h00m'', D_Journal = []\<rparr>"
  by code_simp

text \<open>
  C6 fails in Go for the short row. \<open>LoadDay\<close> reads the file with \<open>ReadAll\<close> of a reader
  whose \<open>FieldsPerRecord\<close> is 0, so the reader takes the five fields of the header as the
  count every record must have and fails at the short row; \<open>LoadDay\<close> returns that error
  and no day. The test \<open>len(record) < 5\<close> in the loop is never reached for such a file.
\<close>

theorem go_short_row_aborts_load:
  "CSVManager_LoadDay golib_plain DataDir short_row_files (clock_from 5000) date_2025_01_15
     = Inl ''failed to read CSV: record on line 2: wrong number of fields''"
  by code_simp

section \<open>Entry ids are made at load time\<close>

lemma NewEntry_id: "E_ID (NewEntry now date description cad idr st) = fresh_id now description"
  by (simp add: NewEntry_def fresh_id_def)

lemma createEntry_id: "e_id (createEntry now date description cad idr st) = fresh_id now description"
  by (simp add: createEntry_def fresh_id_def Let_def)

lemma LoadDay_loop_ids:
  "\<forall>e \<in> set (D_Entries day). \<exists>i. E_ID e = fresh_id (clk i) (E_Description e) \<Longrightarrow>
   \<forall>e \<in> set (D_Entries (LoadDay_loop L clk k rows day)).
      \<exists>i. E_ID e = fresh_id (clk i) (E_Description e)"
proof (induction rows arbitrary: k day)
  case Nil
  then show ?case by simp
next
  case (Cons row rows)
  show ?case
  proof (cases "length row < 5")
    case True
    then show ?thesis using Cons by simp
  next
    case long: False
    show ?thesis
    proof (cases "time_Parse L DateFormat (row ! 0)")
      case None
      then show ?thesis using Cons long by simp
    next
      case (Some entryDate)
      let ?entry = "NewEntry (clk k) entryDate (row ! 1) (parse_amount L (row ! 2))
                      (parse_amount L (row ! 3)) (row ! 4)"
      let ?day1 = "Day_AddEntry day ?entry"
      let ?day2 = "if D_ScreenTime ?day1 = [] \<and> row ! 4 \<noteq> []
                   then Day_SetScreenTime ?day1 (row ! 4) else ?day1"
      have new: "E_ID ?entry = fresh_id (clk k) (E_Description ?entry)"
        by (simp add: NewEntry_def fresh_id_def)
      have "\<forall>e \<in> set (D_Entries ?day1). \<exists>i. E_ID e = fresh_id (clk i) (E_Description e)"
        using Cons.prems new by (auto simp: Day_AddEntry_def NewEntry_def)
      then have inv2: "\<forall>e \<in> set (D_Entries ?day2). \<exists>i. E_ID e = fresh_id (clk i) (E_Description e)"
        by (auto simp: Day_SetScreenTime_def)
      have step: "LoadDay_loop L clk k (row # rows) day = LoadDay_loop L clk (k + 1) rows ?day2"
        using long Some by (simp add: Let_def)
      show ?thesis
        unfolding step by (rule Cons.IH [OF inv2])
    qed
  qed
qed

lemma LoadDay_ids:
  assumes "CSVManager_LoadDay L dataDir fs clk date = Inr day"
  shows "\<forall>e \<in> set (D_Entries day). \<exists>i. E_ID e = fresh_id (clk i) (E_Description e)"
proof -
  have start: "\<forall>e \<in> set (D_Entries (NewDay date)). \<exists>i. E_ID e = fresh_id (clk i) (E_Description e)"
    by (simp add: NewDay_def)
  show ?thesis
    using assms LoadDay_loop_ids [OF start, of L 0]
    by (auto simp: CSVManager_LoadDay_def Let_def NewDay_def split: option.splits sum.splits)
qed

lemma loadDay_loop_ids:
  "\<forall>e \<in> set (d_entries day). \<exists>i. e_id e = fresh_id (clk i) (e_description e) \<Longrightarrow>
   \<forall>e \<in> set (d_entries (loadDay_loop J clk k lines day)).
      \<exists>i. e_id e = fresh_id (clk i) (e_description e)"
proof (induction lines arbitrary: k day)
  case Nil
  then show ?case by simp
next
  case (Cons line lines)
  let ?row = "parseCSVLine line"
  show ?case
  proof (cases "length ?row < 5")
    case True
    then show ?thesis using Cons by (simp add: Let_def)
  next
    case long: False
    show ?thesis
    proof (cases "parseISODate J (?row ! 0)")
      case None
      then show ?thesis using Cons long by (simp add: Let_def)
    next
      case (Some entryDate)
      let ?entry = "createEntry (clk k) entryDate (?row ! 1) (or_zero (parseFloat J (?row ! 2)))
                      (or_zero (parseFloat J (?row ! 3))) (?row ! 4)"
      let ?day1 = "day\<lparr>d_entries := d_entries day @ [?entry]\<rparr>"
      let ?day2 = "if d_screenTime ?day1 = [] \<and> ?row ! 4 \<noteq> []
                   then ?day1\<lparr>d_screenTime := ?row ! 4,
                              d_entries := map (\<lambda>e. e\<lparr>e_screenTime := ?row ! 4\<rparr>)
                                             (d_entries ?day1)\<rparr>
                   else ?day1"
      have new: "e_id ?entry = fresh_id (clk k) (e_description ?entry)"
        by (simp add: createEntry_def fresh_id_def Let_def)
      have "\<forall>e \<in> set (d_entries ?day1). \<exists>i. e_id e = fresh_id (clk i) (e_description e)"
        using Cons.prems new by auto
      then have inv2: "\<forall>e \<in> set (d_entries ?day2). \<exists>i. e_id e = fresh_id (clk i) (e_description e)"
        by auto
      have step: "loadDay_loop J clk k (line # lines) day = loadDay_loop J clk (k + 1) lines ?day2"
        using long Some by (simp add: Let_def)
      show ?thesis
        unfolding step by (rule Cons.IH [OF inv2])
    qed
  qed
qed

lemma loadDay_ids:
  "\<forall>e \<in> set (d_entries (CSVManager_loadDay J dataDir fs clk date)).
      \<exists>i. e_id e = fresh_id (clk i) (e_description e)"
proof -
  have start: "\<forall>e \<in> set (d_entries (createDay date)). \<exists>i. e_id e = fresh_id (clk i) (e_description e)"
    by (simp add: createDay_def)
  show ?thesis
    using loadDay_loop_ids [OF start, of J 0]
    by (auto simp: CSVManager_loadDay_def Let_def createDay_def split: option.splits)
qed

lemma SaveDay_record_ignores_ids:
  "SaveDay_record L (day\<lparr>D_Entries := es'\<rparr>) \<circ> (\<lambda>e. e\<lparr>E_ID := g e\<rparr>) = SaveDay_record L day"
  by (rule ext) (simp add: SaveDay_record_def Entry_DateString_def)

lemma SaveDay_ignores_ids:
  "CSVManager_SaveDay L dataDir fs (day\<lparr>D_Entries := map (\<lambda>e. e\<lparr>E_ID := g e\<rparr>) (D_Entries day)\<rparr>)
     = CSVManager_SaveDay L dataDir fs day"
  by (simp add: CSVManager_SaveDay_def Let_def SaveDay_record_ignores_ids)

lemma csv_record_ignores_ids:
  "(\<lambda>entry. join_with '','' (csv_record J (day\<lparr>d_entries := es'\<rparr>) entry)) \<circ> (\<lambda>e. e\<lparr>e_id := g e\<rparr>)
     = (\<lambda>entry. join_with '','' (csv_record J day entry))"
  by (rule ext) (simp add: csv_record_def)

lemma saveDay_ignores_ids:
  "CSVManager_saveDay J dataDir fs (day\<lparr>d_entries := map (\<lambda>e. e\<lparr>e_id := g e\<rparr>) (d_entries day)\<rparr>)
     = CSVManager_saveDay J dataDir fs day"
  by (simp add: CSVManager_saveDay_def Let_def csv_record_ignores_ids)

text \<open>
  C10. The id that \<open>NewEntry\<close> (\<open>createEntry\<close>) makes is the clock reading and the first 8
  characters of the description, and nothing else; the rows of the file hold no id. The
  coffee of the example day was made at the clock reading 1000. When the saved day is
  loaded at the reading 1000, the reloaded coffee has the id it had in memory: in Go the
  loaded day holds the coffee itself. In TypeScript an undo action that recorded the
  adding of that coffee, run in a session whose cache is empty, then finds the reloaded
  coffee by its id and removes it.
\<close>

theorem reload_at_same_clock_reuses_id:
  "CSVManager_LoadDay golib_plain DataDir
       (CSVManager_SaveDay golib_plain DataDir Map.empty example_Day) (clock_from 1000)
       date_2025_01_15
     = Inr (example_Day\<lparr>D_Entries := [coffee, lunch\<lparr>E_ID := ''1001-Lunch''\<rparr>]\<rparr>)
   \<and> map e_id (d_entries (CSVManager_loadDay jslib_plain DATA_DIR
       (CSVManager_saveDay jslib_plain DATA_DIR Map.empty example_day) (clock_from 1000)
       js_2025_01_15)) = [e_id ts_coffee, ''1001-Lunch'']
   \<and> (case UndoManager_undo jslib_plain DATA_DIR
             (UndoManager_recordAddEntry [] js_2025_01_15 ts_coffee) example_world
             (clock_from 1000) of
         (msg, acts', w', touched) \<Rightarrow>
           touched = Some 0 \<and> map e_description (d_entries (w_heap w' ! 0)) = [''Lunch''])"
  by code_simp

text \<open>
  Two rows with the same description that \<open>loadDay\<close> reads at one clock reading (the clock
  of \<open>Date.now()\<close> counts milliseconds) get the same id.
\<close>

lemma same_reading_same_id:
  "map e_id (d_entries (CSVManager_loadDay jslib_plain DATA_DIR
       (CSVManager_saveDay jslib_plain DATA_DIR Map.empty
          (example_day\<lparr>d_entries := [ts_coffee, ts_coffee]\<rparr>))
       (\<lambda>k. 1000) js_2025_01_15)) = [''1000-Coffee'', ''1000-Coffee'']"
  by code_simp

section \<open>Saving a day and loading it again\<close>





































section \<open>Undoing a delete\<close>













end
